theory Spec2Isabelle
  imports Main
begin

section \<open>Python values, exceptions and replies\<close>

text \<open>
  The three handlers of the pipeline (\<^verbatim>\<open>00-http-trigger\<close>, \<^verbatim>\<open>01-archive-processor\<close>,
  \<^verbatim>\<open>02-datastore-ingestion\<close>) work on the value that \<^verbatim>\<open>json.loads\<close> gives for the
  event's body. A value is \<^verbatim>\<open>None\<close>, a \<^verbatim>\<open>bool\<close>, an unbounded \<^verbatim>\<open>int\<close>, a
  \<^verbatim>\<open>float\<close>, a \<^verbatim>\<open>str\<close>, a \<^verbatim>\<open>list\<close> or a \<^verbatim>\<open>dict\<close> with string keys (kept as
  an association list in insertion order, keys distinct, read with \<open>map_of\<close>).
  Floats are a type parameter \<open>'f\<close>: what Python does with them is taken from
  the record \<open>pylib\<close> below.
\<close>

datatype 'f pyval =
    PNone
  | PBool bool
  | PInt int
  | PFloat 'f
  | PStr string
  | PList "'f pyval list"
  | PDict "(string \<times> 'f pyval) list"

text \<open>
  Exceptions. \<open>NuclioResponseError description status_code\<close> is the class the three
  files declare; the others are the built-in exceptions the handlers can meet, and
  \<open>ExternalError\<close> is any exception raised inside a library call (HTTP, archive,
  shapefile, projection).
\<close>

datatype exn =
    NuclioResponseError string int
  | KeyError
  | TypeError
  | ValueError
  | AttributeError
  | OverflowError
  | UnboundLocalError
  | FileExistsError
  | ExternalError string

text \<open>
  What a handler hands back to the runtime: a \<^verbatim>\<open>context.Response\<close> (its message and
  status code), a plain string, or \<^verbatim>\<open>None\<close>. The message of the catch-all branch is
  \<^verbatim>\<open>'Unexpected error occurred: {0}\n{1}'.format(error, traceback.format_exc())\<close>; it
  is kept as the exception it was formatted from.
\<close>

datatype msg = Described string | Unexpected exn

datatype reply = Response msg int | PlainText string | NoReply

text \<open>The status codes of \<^verbatim>\<open>requests.codes\<close> the handlers use.\<close>

definition codes_ok :: int where "codes_ok = 200"
definition codes_bad :: int where "codes_bad = 400"
definition codes_unavailable :: int where "codes_unavailable = 503"
definition codes_service_unavailable :: int where "codes_service_unavailable = 503"
definition codes_internal_server_error :: int where "codes_internal_server_error = 500"

text \<open>
  \<^verbatim>\<open>NuclioResponseError.as_response\<close>, and the two \<^verbatim>\<open>except\<close> clauses every handler
  ends with: a \<^verbatim>\<open>NuclioResponseError\<close> answers with its own status code, any other
  exception is wrapped in a \<^verbatim>\<open>NuclioResponseError(message)\<close> whose status code is the
  default, \<^verbatim>\<open>internal_server_error\<close>.
\<close>

fun as_response :: "exn \<Rightarrow> reply" where
  "as_response (NuclioResponseError description status_code) =
     Response (Described description) status_code"
| "as_response error = Response (Unexpected error) codes_internal_server_error"

text \<open>
  Sequencing: an exception raised by a step ends the computation with that exception.
\<close>

fun bind_exn :: "exn + 'a \<Rightarrow> ('a \<Rightarrow> exn + 'b) \<Rightarrow> exn + 'b" where
  "bind_exn (Inl e) f = Inl e"
| "bind_exn (Inr v) f = f v"

subsection \<open>Built-in operations\<close>

record 'f pylib =
  float_int :: "'f \<Rightarrow> exn + int"
  float_eq_int :: "'f \<Rightarrow> int \<Rightarrow> bool"
  repr_ext :: "'f pyval \<Rightarrow> string"

text \<open>
  \<open>float_int\<close> is \<^verbatim>\<open>int(x)\<close> of a float, \<open>float_eq_int\<close> is \<^verbatim>\<open>x == n\<close> of a float and
  an int, \<open>repr_ext\<close> is \<^verbatim>\<open>str(v)\<close> of a float, a list or a dict.
\<close>

fun startswith :: "string \<Rightarrow> string \<Rightarrow> bool" where
  "startswith s p = (take (length p) s = p)"

fun endswith :: "string \<Rightarrow> string \<Rightarrow> bool" where
  "endswith s p = (length p \<le> length s \<and> drop (length s - length p) s = p)"

text \<open>\<^verbatim>\<open>sub in s\<close> on strings.\<close>

fun is_substring :: "string \<Rightarrow> string \<Rightarrow> bool" where
  "is_substring sub [] = (sub = [])"
| "is_substring sub (c # cs) = (startswith (c # cs) sub \<or> is_substring sub cs)"

text \<open>\<^verbatim>\<open>key in obj\<close> for a string key: defined on dicts, lists and strings.\<close>

fun py_contains :: "string \<Rightarrow> 'f pyval \<Rightarrow> exn + bool" where
  "py_contains k (PDict d) = Inr (map_of d k \<noteq> None)"
| "py_contains k (PList l) = Inr (List.member l (PStr k))"
| "py_contains k (PStr s) = Inr (is_substring k s)"
| "py_contains k v = Inl TypeError"

text \<open>\<^verbatim>\<open>obj[key]\<close> for a string key: only a dict has string subscripts.\<close>

fun py_getitem :: "'f pyval \<Rightarrow> string \<Rightarrow> exn + 'f pyval" where
  "py_getitem (PDict d) k = (case map_of d k of None \<Rightarrow> Inl KeyError | Some v \<Rightarrow> Inr v)"
| "py_getitem v k = Inl TypeError"

text \<open>
  \<^verbatim>\<open>int(s)\<close> of a string: surrounding whitespace is dropped, then an optional sign and
  decimal digits, a single underscore allowed between two digits. A \<open>char\<close> is a code
  point below 256. The whitespace \<^verbatim>\<open>int\<close> drops there is the tab, the line feed, the
  vertical tab, the form feed, the carriage return, the space, and the two Latin-1
  spaces 0x85 and 0xA0; the separators 0x1C to 0x1F are not dropped. No code point
  from 128 to 255 is a decimal digit. The limit that recent interpreters put on the
  number of digits is outside the model.
\<close>

definition is_space :: "char \<Rightarrow> bool" where
  "is_space c = (c \<in> set [CHR 0x09, CHR 0x0A, CHR 0x0B, CHR 0x0C, CHR 0x0D, CHR '' '',
                             CHR 0x85, CHR 0xA0])"

definition strip :: "string \<Rightarrow> string" where
  "strip s = rev (dropWhile is_space (rev (dropWhile is_space s)))"

definition digit_of :: "char \<Rightarrow> nat option" where
  "digit_of = map_of [(CHR ''0'', 0), (CHR ''1'', 1), (CHR ''2'', 2), (CHR ''3'', 3),
     (CHR ''4'', 4), (CHR ''5'', 5), (CHR ''6'', 6), (CHR ''7'', 7), (CHR ''8'', 8),
     (CHR ''9'', 9)]"

fun parse_digits :: "string \<Rightarrow> nat \<Rightarrow> bool \<Rightarrow> nat option" where
  "parse_digits [] acc after_digit = (if after_digit then Some acc else None)"
| "parse_digits (c # cs) acc after_digit =
     (case digit_of c of
        Some d \<Rightarrow> parse_digits cs (10 * acc + d) True
      | None \<Rightarrow>
          if c = CHR ''_'' \<and> after_digit then
            (case cs of
               [] \<Rightarrow> None
             | c' # _ \<Rightarrow> if digit_of c' = None then None else parse_digits cs acc False)
          else None)"

definition int_of_string :: "string \<Rightarrow> int option" where
  "int_of_string s =
     (case strip s of
        [] \<Rightarrow> None
      | c # cs \<Rightarrow>
          if c = CHR ''-'' then map_option (\<lambda>n. - int n) (parse_digits cs 0 False)
          else if c = CHR ''+'' then map_option int (parse_digits cs 0 False)
          else map_option int (parse_digits (c # cs) 0 False))"

fun py_int :: "'f pylib \<Rightarrow> 'f pyval \<Rightarrow> exn + int" where
  "py_int lib (PInt n) = Inr n"
| "py_int lib (PBool b) = Inr (if b then 1 else 0)"
| "py_int lib (PFloat x) = float_int lib x"
| "py_int lib (PStr s) = (case int_of_string s of None \<Rightarrow> Inl ValueError | Some n \<Rightarrow> Inr n)"
| "py_int lib v = Inl TypeError"

text \<open>\<^verbatim>\<open>str(n)\<close> of an int, in decimal.\<close>

fun str_nat :: "nat \<Rightarrow> string" where
  "str_nat n = (if n < 10 then [''0123456789'' ! n]
                else str_nat (n div 10) @ [''0123456789'' ! (n mod 10)])"

declare str_nat.simps [simp del]

definition str_int :: "int \<Rightarrow> string" where
  "str_int n = (if n < 0 then CHR ''-'' # str_nat (nat (- n)) else str_nat (nat n))"

text \<open>The number that a string of decimal digits denotes, read from the left.\<close>

definition decimal_value :: "nat \<Rightarrow> string \<Rightarrow> nat" where
  "decimal_value acc s = foldl (\<lambda>a c. 10 * a + the (digit_of c)) acc s"

text \<open>\<^verbatim>\<open>str(v)\<close>, which is also what \<^verbatim>\<open>'{0}'.format(v)\<close> puts in the string.\<close>

fun py_str :: "'f pylib \<Rightarrow> 'f pyval \<Rightarrow> string" where
  "py_str lib PNone = ''None''"
| "py_str lib (PBool b) = (if b then ''True'' else ''False'')"
| "py_str lib (PInt n) = str_int n"
| "py_str lib (PStr s) = s"
| "py_str lib v = repr_ext lib v"

text \<open>\<^verbatim>\<open>v == n\<close> for an int \<open>n\<close>: booleans and floats compare by value, nothing else is equal.\<close>

fun py_eq_int :: "'f pylib \<Rightarrow> 'f pyval \<Rightarrow> int \<Rightarrow> bool" where
  "py_eq_int lib (PInt m) n = (m = n)"
| "py_eq_int lib (PBool b) n = ((if b then 1 else 0) = n)"
| "py_eq_int lib (PFloat x) n = float_eq_int lib x n"
| "py_eq_int lib v n = False"

text \<open>\<^verbatim>\<open>v in [n1, n2, ...]\<close> for a list of ints.\<close>

fun py_in_ints :: "'f pylib \<Rightarrow> 'f pyval \<Rightarrow> int list \<Rightarrow> bool" where
  "py_in_ints lib v [] = False"
| "py_in_ints lib v (n # ns) = (py_eq_int lib v n \<or> py_in_ints lib v ns)"

text \<open>A string between single quotes, as the messages write \<^verbatim>\<open>'{0}'\<close>.\<close>

definition quoted :: "string \<Rightarrow> string" where
  "quoted s = CHR 0x27 # s @ [CHR 0x27]"

text \<open>\<^verbatim>\<open>d[k] = v\<close> on a dict: the value is replaced in place, a new key goes last.\<close>

fun dict_set :: "string \<Rightarrow> 'f pyval \<Rightarrow> (string \<times> 'f pyval) list \<Rightarrow> (string \<times> 'f pyval) list" where
  "dict_set k v [] = [(k, v)]"
| "dict_set k v (kv # d) = (if fst kv = k then (k, v) # d else kv # dict_set k v d)"

fun py_setitem :: "'f pyval \<Rightarrow> string \<Rightarrow> 'f pyval \<Rightarrow> exn + 'f pyval" where
  "py_setitem (PDict d) k v = Inr (PDict (dict_set k v d))"
| "py_setitem obj k v = Inl TypeError"

subsection \<open>The Kafka producer\<close>

text \<open>
  \<^verbatim>\<open>p.produce(topic, value)\<close> queues a message, \<^verbatim>\<open>p.flush()\<close> hands every queued
  message to the broker. A message is kept as the document that \<^verbatim>\<open>json.dumps\<close>
  serialises. Failures of the broker connection are outside the model: both calls
  return.
\<close>

record 'f producer =
  queued :: "(string \<times> 'f pyval) list"
  delivered :: "(string \<times> 'f pyval) list"

definition produce :: "string \<Rightarrow> 'f pyval \<Rightarrow> 'f producer \<Rightarrow> 'f producer" where
  "produce topic v p = p\<lparr>queued := queued p @ [(topic, v)]\<rparr>"

definition flush :: "'f producer \<Rightarrow> 'f producer" where
  "flush p = p\<lparr>delivered := delivered p @ queued p, queued := []\<rparr>"

text \<open>Every message handed to the producer so far, in the order of the calls.\<close>

definition handed :: "'f producer \<Rightarrow> (string \<times> 'f pyval) list" where
  "handed p = delivered p @ queued p"

section \<open>The resolver: \<^verbatim>\<open>00-http-trigger/handler/main.py\<close>\<close>

text \<open>
  \<open>FunctionConfig\<close> and \<open>FunctionState\<close> of the file: the constants of the class body,
  and the values \<^verbatim>\<open>Helpers.on_import\<close> loads.
\<close>

definition source_id_cfg :: string where
  "source_id_cfg = ''lpis:fr''"

definition parcel_id_field_cfg :: string where
  "parcel_id_field_cfg = ''ID_PARCEL''"

definition normalized_parcel_properties_cfg :: "'f pyval" where
  "normalized_parcel_properties_cfg =
     PDict [(''area'', PDict [(''sourceProp'', PStr ''SURF_PARC''), (''coefSI'', PStr ''*10000'')])]"

record 'f resolver_state =
  res_done_loading :: bool
  res_lpis_fr_ign_rpg_url :: string
  res_target_topic :: string
  res_producer :: "'f producer"

text \<open>
  The outside world of the resolver: \<open>fetch_anchors url\<close> is \<^verbatim>\<open>requests.get(url)\<close>
  followed by \<^verbatim>\<open>bs.findAll("a", {"class": "fleche2"})\<close>, giving \<^verbatim>\<open>h.get('href')\<close> of each
  anchor found (\<open>None\<close> when the anchor has no \<^verbatim>\<open>href\<close>), or the exception raised;
  \<open>re_search pattern s\<close> says whether \<^verbatim>\<open>re.search(pattern, s)\<close> finds a match.
\<close>

record resolver_env =
  fetch_anchors :: "string \<Rightarrow> exn + string option list"
  re_search :: "string \<Rightarrow> string \<Rightarrow> bool"

text \<open>\<^verbatim>\<open>Helpers.parse_body\<close> (lines 157-182).\<close>

definition parse_body_resolver ::
  "'f pylib \<Rightarrow> 'f pyval \<Rightarrow> exn + ('f pyval \<times> 'f pyval)" where
  "parse_body_resolver lib body =
     bind_exn (py_contains ''year'' body) (\<lambda>has_year.
     if \<not> has_year then
       Inl (NuclioResponseError (''Missing '' @ quoted ''year'' @ '' attribute !'') codes_bad)
     else
     bind_exn (py_getitem body ''year'') (\<lambda>year.
     bind_exn (py_int lib year) (\<lambda>y.
     if y = 0 then
       Inl (NuclioResponseError (quoted ''year'' @ '' attribute must be an integer !'') codes_bad)
     else
     bind_exn (py_contains ''region'' body) (\<lambda>has_region.
     if \<not> has_region then
       Inl (NuclioResponseError (''Missing '' @ quoted ''region'' @ '' attribute !'') codes_bad)
     else
     bind_exn (py_getitem body ''region'') (\<lambda>region.
     bind_exn (py_int lib region) (\<lambda>r.
     if r = 0 then
       Inl (NuclioResponseError (quoted ''region'' @ '' attribute must be an integer !'')
              codes_bad)
     else Inr (year, region)))))))"

text \<open>
  Lines 35-38 of \<^verbatim>\<open>handler\<close>: the region code, the overseas regions written
  \<^verbatim>\<open>D97<n>\<close> and the others \<^verbatim>\<open>R<n>\<close>.
\<close>

definition region_code :: "'f pylib \<Rightarrow> 'f pyval \<Rightarrow> string" where
  "region_code lib region =
     (if py_in_ints lib region [1, 2, 3, 4, 6] then ''D97'' @ py_str lib region
      else ''R'' @ py_str lib region)"

text \<open>Line 40: the pattern of the archive's name.\<close>

definition archive_regex :: "string \<Rightarrow> string \<Rightarrow> string" where
  "archive_regex year region =
     ''RPG_2-0__SHP_.*_'' @ region @ ''-'' @ year @ ''_'' @ year @ ''-01-01.7z(.001)?$''"

text \<open>Lines 53-56: the links whose \<^verbatim>\<open>href\<close> is not empty and matches the pattern.\<close>

fun search_links :: "resolver_env \<Rightarrow> string \<Rightarrow> string option list \<Rightarrow> string list" where
  "search_links env rx [] = []"
| "search_links env rx (h # hrefs) =
     (case h of
        None \<Rightarrow> search_links env rx hrefs
      | Some href \<Rightarrow>
          if href \<noteq> [] \<and> re_search env rx href then href # search_links env rx hrefs
          else search_links env rx hrefs)"

text \<open>Lines 82-89: the download command.\<close>

definition download_cmd :: "string \<Rightarrow> string \<Rightarrow> 'f pyval \<Rightarrow> 'f pyval" where
  "download_cmd archive_to_download source_id year =
     PDict [(''format'', PStr ''7z''),
            (''url'', PStr archive_to_download),
            (''sourceID'', PStr source_id),
            (''parcelIdField'', PStr parcel_id_field_cfg),
            (''normalizedProperties'', normalized_parcel_properties_cfg),
            (''version'', year)]"

text \<open>
  The body of the \<^verbatim>\<open>try\<close> block (lines 21-97): the exception raised, or the archive
  found and the state once the command is produced and flushed. Nothing is written to
  the state before that last step, so an exception leaves the state as it was.
\<close>

definition try_resolver ::
  "'f pylib \<Rightarrow> resolver_env \<Rightarrow> 'f resolver_state \<Rightarrow> 'f pyval
     \<Rightarrow> exn + (string \<times> 'f resolver_state)" where
  "try_resolver lib env st body =
     (if \<not> res_done_loading st then
        Inl (NuclioResponseError ''The service is loading and is temporarily unavailable.''
               codes_unavailable)
      else
        bind_exn (parse_body_resolver lib body) (\<lambda>(year, region0).
        let region = region_code lib region0;
            rx = archive_regex (py_str lib year) region
        in
        bind_exn (fetch_anchors env (res_lpis_fr_ign_rpg_url st)) (\<lambda>hrefs.
        let links = search_links env rx hrefs in
        if length links \<noteq> 1 then
          Inl (NuclioResponseError
                 (''Failed to scrape French LPIS archive for year ''
                    @ quoted (py_str lib year) @ '' and region '' @ quoted region
                    @ '' (not found)'') codes_bad)
        else
          (let archive_to_download = links ! 0 in
           if \<not> (endswith archive_to_download ''7z''
                  \<or> endswith archive_to_download ''7z.001'') then
             Inl (NuclioResponseError
                    (''Not a 7z archive, url(s)='' @ archive_to_download) codes_bad)
           else
             (let source_id = source_id_cfg @ '':'' @ region;
                  cmd = download_cmd archive_to_download source_id year;
                  p = flush (produce (res_target_topic st) cmd (res_producer st))
              in Inr (archive_to_download, st\<lparr>res_producer := p\<rparr>))))))"

text \<open>\<^verbatim>\<open>handler\<close> (lines 11-112): the \<^verbatim>\<open>try\<close> block, its two \<^verbatim>\<open>except\<close> clauses and the final return.\<close>

definition handler_resolver ::
  "'f pylib \<Rightarrow> resolver_env \<Rightarrow> 'f resolver_state \<Rightarrow> 'f pyval \<Rightarrow> reply \<times> 'f resolver_state" where
  "handler_resolver lib env st body =
     (case try_resolver lib env st body of
        Inl error \<Rightarrow> (as_response error, st)
      | Inr (archive_to_download, st') \<Rightarrow>
          (Response (Described (''Archive '' @ quoted archive_to_download
               @ '' successfully submitted for ingestion'')) codes_ok, st'))"

section \<open>The processor: \<^verbatim>\<open>01-archive-processor/handler/main.py\<close>\<close>

text \<open>\<open>FunctionConfig\<close>: the accepted data source and the EPSG code of each region.\<close>

definition accepted_source_id :: string where
  "accepted_source_id = ''lpis:fr''"

definition region_code_epsg_crs :: "(int \<times> int) list" where
  "region_code_epsg_crs =
     [(1, 32620), (2, 32620), (3, 2972), (4, 2975), (6, 4471), (11, 2154), (24, 2154),
      (27, 2154), (28, 2154), (32, 2154), (44, 2154), (52, 2154), (53, 2154), (75, 2154),
      (76, 2154), (84, 2154), (93, 2154), (94, 2154)]"

text \<open>
  The state an invocation works on: \<open>FunctionState\<close> and the Kafka settings, the
  per-event directories that exist under \<^verbatim>\<open>/tmp\<close>, and the URLs opened so far.
\<close>

record 'f processor_state =
  proc_done_loading :: bool
  proc_target_topic :: string
  proc_producer :: "'f producer"
  proc_dirs :: "string list"
  proc_downloads :: "string list"

text \<open>
  The outside world of the processor: \<open>urlopen_ok url\<close> says whether the download of
  \<open>url\<close> goes through (\<^verbatim>\<open>download_file\<close> turns every failure into one error);
  \<open>extractall path dir\<close> is \<^verbatim>\<open>Archive(path).extractall(dir)\<close>, the exception raised
  if any; \<open>os_walk top\<close> lists \<^verbatim>\<open>(dirpath, files)\<close> of every directory under \<open>top\<close>;
  \<open>shapefile_reader f\<close> is \<^verbatim>\<open>shapefile.Reader(f)\<close>, the exception raised at opening or
  the names of \<^verbatim>\<open>reader.fields[1:]\<close> with the steps of \<^verbatim>\<open>reader.iterShapeRecords()\<close>;
  \<open>py_eval\<close> is the built-in \<^verbatim>\<open>eval\<close>.

  \<^verbatim>\<open>iterShapeRecords()\<close> reads the file lazily, one shape record per turn of the loop.
  A step of the iteration is the exception raised while reading that record, which
  ends the iteration, or the shape record read: its attribute values \<^verbatim>\<open>sr.record\<close>, and
  what \<^verbatim>\<open>sr.shape.__geo_interface__\<close> gives when line 137 evaluates it, a value or an
  exception. Attribute values are the values of the first section; dates and bytes
  are outside the model.
\<close>

type_synonym 'f shape_record = "'f pyval list \<times> (exn + 'f pyval)"

record 'f processor_env =
  urlopen_ok :: "string \<Rightarrow> bool"
  extractall :: "string \<Rightarrow> string \<Rightarrow> exn option"
  os_walk :: "string \<Rightarrow> (string \<times> string list) list"
  shapefile_reader :: "string \<Rightarrow> exn + (string list \<times> (exn + 'f shape_record) list)"
  py_eval :: "string \<Rightarrow> exn + 'f pyval"

subsection \<open>String and path operations\<close>

definition lower_char :: "char \<Rightarrow> char" where
  "lower_char c =
     (case map_of (zip ''ABCDEFGHIJKLMNOPQRSTUVWXYZ'' ''abcdefghijklmnopqrstuvwxyz'') c of
        None \<Rightarrow> c
      | Some l \<Rightarrow> l)"

text \<open>\<^verbatim>\<open>v.lower()\<close> and \<^verbatim>\<open>v.startswith(p)\<close>: methods of strings only.\<close>

fun py_lower :: "'f pyval \<Rightarrow> exn + string" where
  "py_lower (PStr s) = Inr (map lower_char s)"
| "py_lower v = Inl AttributeError"

fun py_startswith :: "'f pyval \<Rightarrow> string \<Rightarrow> exn + bool" where
  "py_startswith (PStr s) p = Inr (startswith s p)"
| "py_startswith v p = Inl AttributeError"

text \<open>\<^verbatim>\<open>s.rsplit(sep, 1)[-1]\<close>: what follows the last \<open>sep\<close>, all of \<open>s\<close> when it has none.\<close>

definition rsplit_last :: "char \<Rightarrow> string \<Rightarrow> string" where
  "rsplit_last sep s = rev (takeWhile (\<lambda>c. c \<noteq> sep) (rev s))"

text \<open>\<^verbatim>\<open>os.path.join(a, b)\<close> on POSIX.\<close>

definition path_join :: "string \<Rightarrow> string \<Rightarrow> string" where
  "path_join a b =
     (if startswith b ''/'' then b
      else if a = [] \<or> endswith a ''/'' then a @ b
      else a @ ''/'' @ b)"

text \<open>
  The first component of \<^verbatim>\<open>os.path.splitext(p)\<close>: the extension is cut at the last dot
  of the last path component, unless only dots come before it there.
\<close>

definition splitext_root :: "string \<Rightarrow> string" where
  "splitext_root p =
     (let base = rsplit_last CHR ''/'' p;
          stem = rev (drop 1 (dropWhile (\<lambda>c. c \<noteq> CHR ''.'') (rev base)))
      in if CHR ''.'' \<in> set base \<and> filter (\<lambda>c. c \<noteq> CHR ''.'') stem \<noteq> []
         then take (length p - length base) p @ stem
         else p)"

definition is_digit :: "char \<Rightarrow> bool" where
  "is_digit c = (digit_of c \<noteq> None)"

text \<open>
  \<^verbatim>\<open>re.search('R([0-9]+)', s).group(1)\<close> and \<^verbatim>\<open>re.search('D97([0-9])', s).group(1)\<close>:
  the group of the leftmost match, \<open>None\<close> when there is no match.
\<close>

fun search_R :: "string \<Rightarrow> string option" where
  "search_R [] = None"
| "search_R (c # cs) =
     (if c = CHR ''R'' \<and> takeWhile is_digit cs \<noteq> [] then Some (takeWhile is_digit cs)
      else search_R cs)"

fun search_D97 :: "string \<Rightarrow> string option" where
  "search_D97 [] = None"
| "search_D97 (c # cs) =
     (if startswith (c # cs) ''D97'' \<and> takeWhile is_digit (take 1 (drop 2 cs)) \<noteq> []
      then Some (take 1 (drop 2 cs))
      else search_D97 cs)"

subsection \<open>Helpers\<close>

text \<open>
  The dict \<^verbatim>\<open>b\<close> that \<^verbatim>\<open>Helpers.parse_body\<close> returns. The format and the source id are
  strings and the normalized properties a dict once the checks have passed.
\<close>

record 'f download =
  b_archive_format :: string
  b_archive_url :: "'f pyval"
  b_source_id :: string
  b_parcel_id_field :: "'f pyval"
  b_normalized_parcel_properties :: "(string \<times> 'f pyval) list"
  b_version :: string

text \<open>\<^verbatim>\<open>Helpers.parse_body\<close> (lines 221-287).\<close>

definition parse_body_processor :: "'f pylib \<Rightarrow> 'f pyval \<Rightarrow> exn + 'f download" where
  "parse_body_processor lib body =
     bind_exn (py_contains ''format'' body) (\<lambda>has_format.
     bind_exn (if has_format then
                 bind_exn (py_getitem body ''format'') (\<lambda>fmt.
                 bind_exn (py_lower fmt) (\<lambda>l. Inr (l = ''7z'')))
               else Inr False) (\<lambda>format_ok.
     if \<not> format_ok then
       Inl (NuclioResponseError (''Archive'' @ [CHR 0x27] @ ''s '' @ quoted ''format''
              @ '' must be '' @ quoted ''7z'' @ '' !'') codes_bad)
     else
     bind_exn (py_getitem body ''format'') (\<lambda>fmt.
     bind_exn (py_contains ''url'' body) (\<lambda>has_url.
     if \<not> has_url then
       Inl (NuclioResponseError (''Missing '' @ quoted ''url'' @ '' attribute !'') codes_bad)
     else
     bind_exn (py_getitem body ''url'') (\<lambda>url.
     bind_exn (py_contains ''sourceID'' body) (\<lambda>has_source_id.
     if \<not> has_source_id then
       Inl (NuclioResponseError (''Missing '' @ quoted ''sourceID'' @ '' attribute !'') codes_bad)
     else
     bind_exn (py_getitem body ''sourceID'') (\<lambda>sid.
     bind_exn (py_startswith sid accepted_source_id) (\<lambda>accepted.
     if \<not> accepted then
       Inl (NuclioResponseError (''sourceID: not a '' @ quoted accepted_source_id
              @ '' data source !'') codes_bad)
     else
     bind_exn (py_contains ''parcelIdField'' body) (\<lambda>has_parcel_id_field.
     if \<not> has_parcel_id_field then
       Inl (NuclioResponseError (''Missing '' @ quoted ''parcelIdField'' @ '' attribute !'')
              codes_bad)
     else
     bind_exn (py_getitem body ''parcelIdField'') (\<lambda>pid.
     bind_exn (py_contains ''normalizedProperties'' body) (\<lambda>has_normalized.
     if \<not> has_normalized then
       Inl (NuclioResponseError (''Missing '' @ quoted ''normalizedProperties''
              @ '' attribute !'') codes_bad)
     else
     bind_exn (py_getitem body ''normalizedProperties'') (\<lambda>np.
     (case np of
        PDict normalized \<Rightarrow>
          bind_exn (py_contains ''version'' body) (\<lambda>has_version.
          if \<not> has_version then
            Inl (NuclioResponseError (''Missing '' @ quoted ''version'' @ '' attribute !'')
                   codes_bad)
          else
          bind_exn (py_getitem body ''version'') (\<lambda>v.
          Inr \<lparr>b_archive_format = py_str lib fmt,
               b_archive_url = url,
               b_source_id = py_str lib sid,
               b_parcel_id_field = pid,
               b_normalized_parcel_properties = normalized,
               b_version = py_str lib v\<rparr>))
      | _ \<Rightarrow>
          Inl (NuclioResponseError (quoted ''normalizedProperties'' @ '' is not a dict !'')
                 codes_bad))))))))))))))"

text \<open>
  \<^verbatim>\<open>Helpers.create_temporary_dir\<close> (lines 289-299): \<^verbatim>\<open>os.makedirs\<close> raises when the
  directory exists.
\<close>

definition create_temporary_dir ::
  "string \<Rightarrow> 'f processor_state \<Rightarrow> exn + (string \<times> 'f processor_state)" where
  "create_temporary_dir event_id st =
     (let temp_dir = ''/tmp/nuclio-event-'' @ event_id in
      if temp_dir \<in> set (proc_dirs st) then Inl FileExistsError
      else Inr (temp_dir, st\<lparr>proc_dirs := temp_dir # proc_dirs st\<rparr>))"

text \<open>\<^verbatim>\<open>shutil.rmtree(d)\<close> on a bound name.\<close>

definition rmtree :: "string \<Rightarrow> 'f processor_state \<Rightarrow> 'f processor_state" where
  "rmtree d st = st\<lparr>proc_dirs := removeAll d (proc_dirs st)\<rparr>"

text \<open>
  \<^verbatim>\<open>Helpers.download_file\<close> (lines 301-328): the URL is opened, and any failure is
  raised as one \<^verbatim>\<open>NuclioResponseError\<close>. The directory of the target path is the
  event's directory, which exists, so \<^verbatim>\<open>os.makedirs(..., exist_ok=True)\<close> does nothing.
\<close>

definition download_file ::
  "'f processor_env \<Rightarrow> string \<Rightarrow> string \<Rightarrow> 'f processor_state
     \<Rightarrow> exn option \<times> 'f processor_state" where
  "download_file env url target_path st =
     (let st' = st\<lparr>proc_downloads := proc_downloads st @ [url]\<rparr> in
      if urlopen_ok env url then (None, st')
      else (Some (NuclioResponseError (''Failed to download file: '' @ url)
                    codes_service_unavailable), st'))"

subsection \<open>The handler\<close>

text \<open>Lines 47-51: the archive's file name, without the \<^verbatim>\<open>.001\<close> of a first volume.\<close>

definition archive_name_of :: "string \<Rightarrow> string \<Rightarrow> string" where
  "archive_name_of archive_format url =
     (let archive_name = rsplit_last CHR ''/'' url in
      if endswith archive_name (archive_format @ ''.001'')
      then take (length archive_name - length ''.001'') archive_name
      else archive_name)"

text \<open>Lines 65-75: the loop over \<^verbatim>\<open>os.walk(search_path)\<close>, with \<^verbatim>\<open>shpfs\<close> as accumulator.\<close>

fun search_shapefiles :: "(string \<times> string list) list \<Rightarrow> string list \<Rightarrow> exn + string list" where
  "search_shapefiles [] shpfs = Inr shpfs"
| "search_shapefiles (entry # entries) shpfs =
     (let a = filter (\<lambda>f. f = ''PARCELLES_GRAPHIQUES.shp'') (snd entry) in
      if a \<noteq> [] \<and> length a = 1 then
        search_shapefiles entries (shpfs @ [path_join (fst entry) (a ! 0)])
      else if length a > 1 then
        Inl (NuclioResponseError (''More than one shapefile '' @ quoted ''PARCELLES_GRAPHIQUES.shp''
               @ '' found !'') codes_bad)
      else search_shapefiles entries shpfs)"

text \<open>Lines 89-99: the EPSG code of the region named at the end of the source id.\<close>

definition region_crs :: "string \<Rightarrow> exn + int" where
  "region_crs source_id =
     (let region = rsplit_last CHR '':'' source_id in
      bind_exn (case search_R region of
                  Some digits \<Rightarrow> Inr digits
                | None \<Rightarrow>
                   (case search_D97 region of
                      Some digits \<Rightarrow> Inr digits
                    | None \<Rightarrow> Inl (NuclioResponseError (''Region code unknown, region='' @ region)
                                     codes_bad))) (\<lambda>digits.
      bind_exn (case int_of_string digits of None \<Rightarrow> Inl ValueError | Some n \<Rightarrow> Inr n) (\<lambda>n.
      case map_of region_code_epsg_crs n of None \<Rightarrow> Inl KeyError | Some crs_code \<Rightarrow> Inr crs_code)))"

text \<open>
  \<^verbatim>\<open>dict(zip(names, values))\<close>, and the lookup of a key that is any value: a list or a
  dict is unhashable, and only a string can be one of the keys.
\<close>

definition dict_of_pairs :: "(string \<times> 'f pyval) list \<Rightarrow> (string \<times> 'f pyval) list" where
  "dict_of_pairs kvs = foldl (\<lambda>d kv. dict_set (fst kv) (snd kv) d) [] kvs"

fun dict_find :: "(string \<times> 'f pyval) list \<Rightarrow> 'f pyval \<Rightarrow> exn + 'f pyval option" where
  "dict_find d (PStr k) = Inr (map_of d k)"
| "dict_find d (PList l) = Inl TypeError"
| "dict_find d (PDict e) = Inl TypeError"
| "dict_find d v = Inr None"

text \<open>
  Lines 130-135: the loop over the normalized properties, \<open>todo\<close> the entries still to
  visit and \<open>properties\<close> the dict being filled.
\<close>

fun normalize_properties ::
  "'f pylib \<Rightarrow> 'f processor_env \<Rightarrow> (string \<times> 'f pyval) list \<Rightarrow> (string \<times> 'f pyval) list
     \<Rightarrow> (string \<times> 'f pyval) list \<Rightarrow> exn + (string \<times> 'f pyval) list" where
  "normalize_properties lib env parcel_properties [] properties = Inr properties"
| "normalize_properties lib env parcel_properties (entry # todo) properties =
     bind_exn (py_getitem (snd entry) ''sourceProp'') (\<lambda>source_prop.
     bind_exn (dict_find parcel_properties source_prop) (\<lambda>found.
     bind_exn (py_contains ''coefSI'' (snd entry)) (\<lambda>has_coef.
     bind_exn (if has_coef then
                 bind_exn (py_getitem (snd entry) ''coefSI'') (\<lambda>coef.
                 py_eval env (py_str lib (case found of None \<Rightarrow> PNone | Some v \<Rightarrow> v)
                                @ py_str lib coef))
               else Inr (case found of None \<Rightarrow> PNone | Some v \<Rightarrow> v)) (\<lambda>v.
     normalize_properties lib env parcel_properties todo
       (dict_set (fst entry) v properties)))))"

text \<open>Line 117: \<^verbatim>\<open>int(parcel_properties[parcel_id_field])\<close>.\<close>

definition natural_key ::
  "'f pylib \<Rightarrow> (string \<times> 'f pyval) list \<Rightarrow> 'f pyval \<Rightarrow> exn + int" where
  "natural_key lib parcel_properties parcel_id_field =
     bind_exn (dict_find parcel_properties parcel_id_field) (\<lambda>found.
     case found of None \<Rightarrow> Inl KeyError | Some key \<Rightarrow> py_int lib key)"

text \<open>
  The natural key of a shape record, before its conversion: what
  \<^verbatim>\<open>dict(zip(fields_name, sr.record))\<close> holds under \<^verbatim>\<open>parcel_id_field\<close>.
\<close>

definition record_key ::
  "string list \<Rightarrow> 'f pyval \<Rightarrow> 'f shape_record \<Rightarrow> exn + 'f pyval option" where
  "record_key fields_name parcel_id_field sr =
     dict_find (dict_of_pairs (zip fields_name (fst sr))) parcel_id_field"

text \<open>
  Lines 116-140: the feature built from one shape record. The id comes first, then
  the properties, then the geometry.
\<close>

definition shape_record_feature ::
  "'f pylib \<Rightarrow> 'f processor_env \<Rightarrow> 'f download \<Rightarrow> int \<Rightarrow> string list
     \<Rightarrow> 'f shape_record \<Rightarrow> exn + 'f pyval" where
  "shape_record_feature lib env b crs_code fields_name sr =
     (let parcel_properties = dict_of_pairs (zip fields_name (fst sr)) in
      bind_exn (natural_key lib parcel_properties (b_parcel_id_field b)) (\<lambda>n.
      let parcel_id = b_source_id b @ '':'' @ str_int n;
          properties =
            [(''lpis'', PDict parcel_properties),
             (''crs'', PDict [(''type'', PStr ''EPSG''),
                              (''properties'', PDict [(''code'', PInt crs_code)])]),
             (''version'', PStr (b_version b))]
      in
      bind_exn (normalize_properties lib env parcel_properties
                  (b_normalized_parcel_properties b) properties) (\<lambda>properties'.
      bind_exn (snd sr) (\<lambda>geometry.
      Inr (PDict [(''_id'', PStr parcel_id),
                  (''type'', PStr ''Feature''),
                  (''geometry'', geometry),
                  (''properties'', PDict properties')])))))"

text \<open>
  Lines 115-148: the loop over \<^verbatim>\<open>reader.iterShapeRecords()\<close>, on the steps of the
  iteration still to come. Each record is read when its turn comes; its feature is
  produced, the producer is flushed when the count is a multiple of 1000, and the
  count goes up. An exception, from the reading or from the building of the feature,
  ends the loop with the producer as it then is: what was produced before stays
  produced.
\<close>

fun process_records ::
  "'f pylib \<Rightarrow> 'f processor_env \<Rightarrow> 'f download \<Rightarrow> int \<Rightarrow> string \<Rightarrow> string list
     \<Rightarrow> (exn + 'f shape_record) list \<Rightarrow> nat \<Rightarrow> 'f producer
     \<Rightarrow> (exn + nat) \<times> 'f producer" where
  "process_records lib env b crs_code topic fields_name [] count p = (Inr count, p)"
| "process_records lib env b crs_code topic fields_name (step # steps) count p =
     (case step of
        Inl e \<Rightarrow> (Inl e, p)
      | Inr sr \<Rightarrow>
         (case shape_record_feature lib env b crs_code fields_name sr of
            Inl e \<Rightarrow> (Inl e, p)
          | Inr parcel \<Rightarrow>
              process_records lib env b crs_code topic fields_name steps (count + 1)
                (if count mod 1000 = 0 then flush (produce topic parcel p)
                 else produce topic parcel p)))"

text \<open>
  Lines 59-109: extraction, the search for the shapefile, the region's EPSG code and
  the opening of the shapefile. The result holds the field names and the iteration
  over the shape records, of which nothing is read yet.
\<close>

definition open_shapefile ::
  "'f processor_env \<Rightarrow> 'f download \<Rightarrow> string \<Rightarrow> string \<Rightarrow> string
     \<Rightarrow> exn + (int \<times> string list \<times> (exn + 'f shape_record) list)" where
  "open_shapefile env b tmp_dir archive_name archive_target_path =
     bind_exn (case extractall env archive_target_path tmp_dir of
                 Some e \<Rightarrow> Inl e
               | None \<Rightarrow> Inr ()) (\<lambda>u.
     let search_path = path_join tmp_dir (splitext_root archive_name) in
     bind_exn (search_shapefiles (os_walk env search_path) []) (\<lambda>shpfs.
     if length shpfs \<noteq> 1 then
       Inl (NuclioResponseError (''Shapefile '' @ quoted ''PARCELLES_GRAPHIQUES.shp''
              @ '' not found in extracted archive '' @ [CHR 0x27] @ archive_name @ '' !'')
              codes_bad)
     else
     bind_exn (region_crs (b_source_id b)) (\<lambda>crs_code.
     bind_exn (shapefile_reader env (shpfs ! 0)) (\<lambda>reader.
     Inr (crs_code, fst reader, snd reader)))))"

text \<open>
  Lines 47-152: everything the \<^verbatim>\<open>try\<close> block does once \<^verbatim>\<open>tmp_dir\<close> is bound. The result
  is the exception raised or the number of records processed.
\<close>

definition process_archive ::
  "'f pylib \<Rightarrow> 'f processor_env \<Rightarrow> 'f download \<Rightarrow> string \<Rightarrow> 'f processor_state
     \<Rightarrow> (exn + nat) \<times> 'f processor_state" where
  "process_archive lib env b tmp_dir st =
     (case b_archive_url b of
        PStr url \<Rightarrow>
          (let archive_name = archive_name_of (b_archive_format b) url;
               archive_target_path = path_join tmp_dir archive_name
           in case download_file env url archive_target_path st of
                (Some e, st1) \<Rightarrow> (Inl e, st1)
              | (None, st1) \<Rightarrow>
                 (case open_shapefile env b tmp_dir archive_name archive_target_path of
                    Inl e \<Rightarrow> (Inl e, st1)
                  | Inr (crs_code, fields_name, records) \<Rightarrow>
                     (case process_records lib env b crs_code (proc_target_topic st1)
                             fields_name records 0 (proc_producer st1) of
                        (Inl e, p) \<Rightarrow> (Inl e, st1\<lparr>proc_producer := p\<rparr>)
                      | (Inr count, p) \<Rightarrow> (Inr count, st1\<lparr>proc_producer := flush p\<rparr>))))
      | _ \<Rightarrow> (Inl AttributeError, st))"

text \<open>
  The \<^verbatim>\<open>try\<close> block (lines 26-152): the exception raised or the count, the binding of
  the local \<^verbatim>\<open>tmp_dir\<close> (\<open>None\<close> while it is unbound) and the state. \<^verbatim>\<open>tmp_dir\<close> is
  bound on line 45, after the readiness test and \<^verbatim>\<open>parse_body\<close>.
\<close>

definition try_processor ::
  "'f pylib \<Rightarrow> 'f processor_env \<Rightarrow> 'f processor_state \<Rightarrow> string \<Rightarrow> 'f pyval
     \<Rightarrow> (exn + nat) \<times> string option \<times> 'f processor_state" where
  "try_processor lib env st event_id body =
     (if \<not> proc_done_loading st then
        (Inl (NuclioResponseError ''The service is loading and is temporarily unavailable.''
                codes_unavailable), None, st)
      else
        (case parse_body_processor lib body of
           Inl e \<Rightarrow> (Inl e, None, st)
         | Inr b \<Rightarrow>
            (case create_temporary_dir event_id st of
               Inl e \<Rightarrow> (Inl e, None, st)
             | Inr (tmp_dir, st1) \<Rightarrow>
                (case process_archive lib env b tmp_dir st1 of
                   (r, st2) \<Rightarrow> (r, Some tmp_dir, st2)))))"

text \<open>
  The \<^verbatim>\<open>finally\<close> clause (lines 163-164): \<^verbatim>\<open>shutil.rmtree(tmp_dir)\<close>. Reading a local
  that is not bound raises \<^verbatim>\<open>UnboundLocalError\<close>.
\<close>

definition finally_processor ::
  "string option \<Rightarrow> 'f processor_state \<Rightarrow> exn + 'f processor_state" where
  "finally_processor tmp_dir st =
     (case tmp_dir of None \<Rightarrow> Inl UnboundLocalError | Some d \<Rightarrow> Inr (rmtree d st))"

text \<open>
  \<^verbatim>\<open>handler\<close> (lines 16-166). The \<^verbatim>\<open>except\<close> clauses return the error's response and the
  last line returns the completion text, but the \<^verbatim>\<open>finally\<close> clause runs before the
  handler returns either: when it raises, the handler raises (\<open>Inl\<close>) and the
  response is lost.
\<close>

definition handler_processor ::
  "'f pylib \<Rightarrow> 'f processor_env \<Rightarrow> 'f processor_state \<Rightarrow> string \<Rightarrow> 'f pyval
     \<Rightarrow> (exn + reply) \<times> 'f processor_state" where
  "handler_processor lib env st event_id body =
     (case try_processor lib env st event_id body of
        (r, tmp_dir, st1) \<Rightarrow>
          (case finally_processor tmp_dir st1 of
             Inl e \<Rightarrow> (Inl e, st1)
           | Inr st2 \<Rightarrow>
              (Inr (case r of
                      Inl error \<Rightarrow> as_response error
                    | Inr count \<Rightarrow>
                        PlainText (''Processing Completed ('' @ str_nat count @ '' geometries)'')),
               st2)))"

section \<open>The ingestor: \<^verbatim>\<open>02-datastore-ingestion/handler/main.py\<close>\<close>

text \<open>
  \<open>FunctionConfig\<close> and \<open>FunctionState\<close>: the readiness flag, the target EPSG code and
  the documents of the target collection (\<^verbatim>\<open>client[target_db][target_collection]\<close>).
  \<^verbatim>\<open>os.getenv\<close> returns a string, so the target code is a string.
\<close>

record 'f ingestor_state =
  ing_done_loading :: bool
  ing_target_crs_epsg_code :: string
  ing_collection :: "'f pyval list"

definition getenv :: "(string \<Rightarrow> string option) \<Rightarrow> string \<Rightarrow> string \<Rightarrow> string" where
  "getenv environ name fallback = (case environ name of None \<Rightarrow> fallback | Some v \<Rightarrow> v)"

text \<open>\<^verbatim>\<open>Helpers.load_configs\<close> (lines 97-108), for the setting the handler reads.\<close>

definition load_configs_ingestor ::
  "(string \<Rightarrow> string option) \<Rightarrow> 'f ingestor_state \<Rightarrow> 'f ingestor_state" where
  "load_configs_ingestor environ st =
     st\<lparr>ing_target_crs_epsg_code := getenv environ ''TARGET_CRS_EPSG_CODE'' ''4326''\<rparr>"

text \<open>
  The projection library: \<open>proj_init s\<close> is \<^verbatim>\<open>Proj(init=s)\<close>, a projection or the
  exception raised for a code it does not know; \<open>transform p1 p2 args\<close> is
  \<^verbatim>\<open>transform(p1, p2, *args)\<close>.
\<close>

record ('f, 'p) ingestor_env =
  proj_init :: "string \<Rightarrow> exn + 'p"
  transform :: "'p \<Rightarrow> 'p \<Rightarrow> 'f pyval list \<Rightarrow> exn + 'f pyval"

text \<open>
  \<^verbatim>\<open>Helpers.reproject_coordinates\<close> (lines 87-95), on the items of \<^verbatim>\<open>coords\<close>.
  \<open>reproject_loop\<close> is the \<^verbatim>\<open>for\<close> loop: the items still to visit and \<^verbatim>\<open>new_coords\<close>.
  The first item that is not a list ends the loop with the transform of all of
  \<^verbatim>\<open>coords\<close>; \<open>tr\<close> is \<^verbatim>\<open>transform\<close> with the two projections given.
\<close>

fun reproject_coordinates ::
      "('f pyval list \<Rightarrow> exn + 'f pyval) \<Rightarrow> 'f pyval list \<Rightarrow> exn + 'f pyval"
  and reproject_loop ::
      "('f pyval list \<Rightarrow> exn + 'f pyval) \<Rightarrow> 'f pyval list \<Rightarrow> 'f pyval list
         \<Rightarrow> 'f pyval list \<Rightarrow> exn + 'f pyval"
where
  "reproject_coordinates tr coords = reproject_loop tr coords coords []"
| "reproject_loop tr coords [] new_coords = Inr (PList new_coords)"
| "reproject_loop tr coords (c # rest) new_coords =
     (case c of
        PList l \<Rightarrow>
          (case reproject_coordinates tr l of
             Inl e \<Rightarrow> Inl e
           | Inr v \<Rightarrow> reproject_loop tr coords rest (new_coords @ [v]))
      | _ \<Rightarrow> tr coords)"

declare reproject_coordinates.simps [simp del]

text \<open>\<^verbatim>\<open>for c in coords\<close>: the items of a list, the characters of a string, the keys of a dict.\<close>

fun py_iter :: "'f pyval \<Rightarrow> exn + 'f pyval list" where
  "py_iter (PList l) = Inr l"
| "py_iter (PStr s) = Inr (map (\<lambda>c. PStr [c]) s)"
| "py_iter (PDict d) = Inr (map (\<lambda>kv. PStr (fst kv)) d)"
| "py_iter v = Inl TypeError"

text \<open>\<^verbatim>\<open>obj[k1][k2]...\<close>\<close>

fun py_path :: "'f pyval \<Rightarrow> string list \<Rightarrow> exn + 'f pyval" where
  "py_path v [] = Inr v"
| "py_path v (k # ks) = bind_exn (py_getitem v k) (\<lambda>w. py_path w ks)"

text \<open>
  Lines 37-46 of \<^verbatim>\<open>handler\<close>: the body as it is handed to the store, with its
  coordinates reprojected when it declares an EPSG code that differs from the target.
\<close>

definition check_crs ::
  "'f pylib \<Rightarrow> ('f, 'p) ingestor_env \<Rightarrow> 'f ingestor_state \<Rightarrow> 'f pyval \<Rightarrow> exn + 'f pyval" where
  "check_crs lib env st body =
     bind_exn (py_getitem body ''properties'') (\<lambda>properties.
     bind_exn (py_contains ''crs'' properties) (\<lambda>has_crs.
     if \<not> has_crs then Inr body
     else
     bind_exn (py_path body [''properties'', ''crs'', ''type'']) (\<lambda>crs_type.
     if crs_type \<noteq> PStr ''EPSG'' then Inr body
     else
     bind_exn (py_path body [''properties'', ''crs'', ''properties'', ''code'']) (\<lambda>code.
     if \<not> (code \<noteq> PStr (ing_target_crs_epsg_code st)) then Inr body
     else
     bind_exn (proj_init env (''EPSG:'' @ py_str lib code)) (\<lambda>source_proj.
     bind_exn (proj_init env (''EPSG:'' @ ing_target_crs_epsg_code st)) (\<lambda>target_proj.
     bind_exn (py_path body [''geometry'', ''coordinates'']) (\<lambda>coords.
     bind_exn (py_iter coords) (\<lambda>items.
     bind_exn (reproject_coordinates (transform env source_proj target_proj) items)
       (\<lambda>new_coordinates.
     bind_exn (py_getitem body ''geometry'') (\<lambda>geometry.
     bind_exn (py_setitem geometry ''coordinates'' new_coordinates) (\<lambda>geometry'.
     py_setitem body ''geometry'' geometry')))))))))))"

text \<open>
  Modelled from the spec: \<^verbatim>\<open>Collection.replace_one\<close> of the store's client library,
  which is not part of the repository. The spec's words: "if a document with that id
  exists, it is fully replaced by the new document; otherwise a new document is
  inserted". The collection is the list of its documents; the filter
  \<^verbatim>\<open>{'_id': id}\<close> selects the first document whose \<^verbatim>\<open>_id\<close> is \<open>id\<close>.
\<close>

definition doc_id :: "'f pyval \<Rightarrow> exn + 'f pyval" where
  "doc_id d = py_getitem d ''_id''"

fun replace_one :: "'f pyval \<Rightarrow> 'f pyval \<Rightarrow> 'f pyval list \<Rightarrow> 'f pyval list" where
  "replace_one i doc [] = [doc]"
| "replace_one i doc (d # ds) =
     (if doc_id d = Inr i then doc # ds else d # replace_one i doc ds)"

text \<open>The body of the \<^verbatim>\<open>try\<close> block (lines 20-52): the exception raised, or the state after the upsert.\<close>

definition try_ingestor ::
  "'f pylib \<Rightarrow> ('f, 'p) ingestor_env \<Rightarrow> 'f ingestor_state \<Rightarrow> 'f pyval
     \<Rightarrow> exn + 'f ingestor_state" where
  "try_ingestor lib env st body =
     (if \<not> ing_done_loading st then
        Inl (NuclioResponseError ''The service is loading and is temporarily unavailable.''
               codes_unavailable)
      else
        bind_exn (py_getitem body ''_id'') (\<lambda>i.
        bind_exn (check_crs lib env st body) (\<lambda>body'.
        Inr (st\<lparr>ing_collection := replace_one i body' (ing_collection st)\<rparr>))))"

text \<open>\<^verbatim>\<open>handler\<close> (lines 10-63): on success the handler returns \<^verbatim>\<open>None\<close>.\<close>

definition handler_ingestor ::
  "'f pylib \<Rightarrow> ('f, 'p) ingestor_env \<Rightarrow> 'f ingestor_state \<Rightarrow> 'f pyval
     \<Rightarrow> reply \<times> 'f ingestor_state" where
  "handler_ingestor lib env st body =
     (case try_ingestor lib env st body of
        Inl error \<Rightarrow> (as_response error, st)
      | Inr st' \<Rightarrow> (NoReply, st'))"

subsection \<open>Coordinate trees\<close>

text \<open>
  The spec's reading of a geometry's coordinates: a node is a point (a flat numeric
  pair) or a sequence of nodes. \<open>embed\<close> gives the nested lists a tree stands for,
  \<open>reproject_tree\<close> is the spec's reprojection (transform each point, keep the
  nesting), \<open>shape_of\<close> is the nesting alone. A tuple returned by \<^verbatim>\<open>transform\<close> is
  written as a list, which is how the store encodes it.
\<close>

fun numeric :: "'f pyval \<Rightarrow> bool" where
  "numeric (PInt n) = True"
| "numeric (PFloat x) = True"
| "numeric v = False"

datatype 'f coord_tree = Point "'f pyval" "'f pyval" | Sequence "'f coord_tree list"

fun embed :: "'f coord_tree \<Rightarrow> 'f pyval" where
  "embed (Point x y) = PList [x, y]"
| "embed (Sequence ts) = PList (map embed ts)"

fun numeric_tree :: "'f coord_tree \<Rightarrow> bool" where
  "numeric_tree (Point x y) = (numeric x \<and> numeric y)"
| "numeric_tree (Sequence ts) = list_all numeric_tree ts"

fun reproject_tree ::
  "('f pyval \<Rightarrow> 'f pyval \<Rightarrow> 'f pyval \<times> 'f pyval) \<Rightarrow> 'f coord_tree \<Rightarrow> 'f coord_tree" where
  "reproject_tree f (Point x y) = Point (fst (f x y)) (snd (f x y))"
| "reproject_tree f (Sequence ts) = Sequence (map (reproject_tree f) ts)"

datatype shape = Leaf | Node "shape list"

fun shape_of :: "'f coord_tree \<Rightarrow> shape" where
  "shape_of (Point x y) = Leaf"
| "shape_of (Sequence ts) = Node (map shape_of ts)"

section \<open>Example values\<close>

text \<open>
  A library instance with no floats, and a stand-in for \<^verbatim>\<open>transform\<close> that swaps the
  two coordinates of a pair, used to run the definitions on concrete inputs.
\<close>

definition example_lib :: "unit pylib" where
  "example_lib =
     \<lparr>float_int = (\<lambda>x. Inr 0), float_eq_int = (\<lambda>x n. n = 0), repr_ext = (\<lambda>v. ''?'')\<rparr>"

fun swap_transform :: "'f pyval list \<Rightarrow> exn + 'f pyval" where
  "swap_transform [x, y] = Inr (PList [y, x])"
| "swap_transform args = Inl TypeError"

text \<open>
  An ingestor whose projections are named by their init strings and whose transform
  swaps the pair; a point feature as the processor emits it; the \<^verbatim>\<open>crs\<close> entry of a
  feature; an ingestor that finished loading with no \<^verbatim>\<open>TARGET_CRS_EPSG_CODE\<close> in its
  environment.
\<close>

definition example_ingestor_env :: "(unit, string) ingestor_env" where
  "example_ingestor_env = \<lparr>proj_init = Inr, transform = (\<lambda>p1 p2. swap_transform)\<rparr>"

definition example_feature :: "'f pyval \<Rightarrow> 'f pyval \<Rightarrow> 'f pyval" where
  "example_feature coordinates properties =
     PDict [(''_id'', PStr ''lpis:fr:R24:1''),
            (''type'', PStr ''Feature''),
            (''geometry'', PDict [(''type'', PStr ''Point''), (''coordinates'', coordinates)]),
            (''properties'', properties)]"

definition crs_tag :: "int \<Rightarrow> 'f pyval" where
  "crs_tag n = PDict [(''type'', PStr ''EPSG''), (''properties'', PDict [(''code'', PInt n)])]"

definition ready_ingestor :: "'f pyval list \<Rightarrow> 'f ingestor_state" where
  "ready_ingestor docs =
     load_configs_ingestor (\<lambda>name. None)
       \<lparr>ing_done_loading = True, ing_target_crs_epsg_code = [], ing_collection = docs\<rparr>"

text \<open>
  A resolver that finished loading, and a catalog page with five anchors of which one
  matches the pattern for year 2016 and region R24; \<open>re_search\<close> answers for that one
  pattern.
\<close>

definition example_resolver_env :: resolver_env where
  "example_resolver_env =
     \<lparr>fetch_anchors = (\<lambda>url. Inr [None, Some [],
          Some ''http://host/RPG_2-0__SHP_LAMB93_R24-2016_2016-01-01.7z'',
          Some ''http://host/RPG_2-0__SHP_LAMB93_R27-2016_2016-01-01.7z'',
          Some ''http://host/DC_DL_RPG_2-0.pdf'']),
      re_search = (\<lambda>rx s. rx = ''RPG_2-0__SHP_.*_R24-2016_2016-01-01.7z(.001)?$''
          \<and> is_substring ''RPG_2-0__SHP_'' s
          \<and> (endswith s ''_R24-2016_2016-01-01.7z''
               \<or> endswith s ''_R24-2016_2016-01-01.7z.001''))\<rparr>"

definition ready_resolver :: "'f resolver_state" where
  "ready_resolver =
     \<lparr>res_done_loading = True, res_lpis_fr_ign_rpg_url = ''http://professionnels.ign.fr/rpg'',
      res_target_topic = ''lpis-archives'',
      res_producer = \<lparr>queued = [], delivered = []\<rparr>\<rparr>"

text \<open>
  A download command as the resolver writes it, with the format given; a processor
  that finished loading; an archive that downloads and extracts to one shapefile of
  four records, whose natural keys are \<^verbatim>\<open>"0123"\<close>, \<^verbatim>\<open>"123"\<close>, \<^verbatim>\<open>"abc"\<close> and \<^verbatim>\<open>"77"\<close>, and
  a second shapefile whose second record cannot be read; \<open>py_eval\<close> answers for the
  two expressions these records lead to.
\<close>

definition example_command :: "string \<Rightarrow> 'f pyval" where
  "example_command fmt =
     PDict [(''format'', PStr fmt),
            (''url'', PStr ''http://host/RPG_2-0__SHP_LAMB93_R24-2016_2016-01-01.7z''),
            (''sourceID'', PStr ''lpis:fr:R24''),
            (''parcelIdField'', PStr ''ID_PARCEL''),
            (''normalizedProperties'', normalized_parcel_properties_cfg),
            (''version'', PInt 2016)]"

definition example_point :: "int \<Rightarrow> int \<Rightarrow> exn + 'f pyval" where
  "example_point x y =
     Inr (PDict [(''type'', PStr ''Point''), (''coordinates'', PList [PInt x, PInt y])])"

definition example_records :: "(exn + 'f shape_record) list" where
  "example_records =
     [Inr ([PStr ''0123'', PInt 2], example_point 1 2),
      Inr ([PStr ''123'', PInt 3], example_point 3 4),
      Inr ([PStr ''abc'', PInt 4], example_point 5 6),
      Inr ([PStr ''77'', PInt 2], example_point 7 8)]"

definition example_records_read_error :: "(exn + 'f shape_record) list" where
  "example_records_read_error =
     [Inr ([PStr ''0123'', PInt 2], example_point 1 2),
      Inl (ExternalError ''shapefile'')]"

definition example_processor_env :: "unit processor_env" where
  "example_processor_env =
     \<lparr>urlopen_ok = (\<lambda>url. True),
      extractall = (\<lambda>path dir. None),
      os_walk = (\<lambda>top. [(top, [''PARCELLES_GRAPHIQUES.shp''])]),
      shapefile_reader = (\<lambda>f. Inr ([''ID_PARCEL'', ''SURF_PARC''], example_records)),
      py_eval = (\<lambda>s. if s = ''2*10000'' then Inr (PInt 20000)
                       else if s = ''3*10000'' then Inr (PInt 30000)
                       else Inl (ExternalError ''eval''))\<rparr>"

definition ready_processor :: "'f processor_state" where
  "ready_processor =
     \<lparr>proc_done_loading = True, proc_target_topic = ''lpis-features'',
      proc_producer = \<lparr>queued = [], delivered = []\<rparr>, proc_dirs = [], proc_downloads = []\<rparr>"

definition example_download :: "'f download" where
  "example_download =
     \<lparr>b_archive_format = ''7z'',
      b_archive_url = PStr ''http://host/RPG_2-0__SHP_LAMB93_R24-2016_2016-01-01.7z'',
      b_source_id = ''lpis:fr:R24'',
      b_parcel_id_field = PStr ''ID_PARCEL'',
      b_normalized_parcel_properties =
        [(''area'', PDict [(''sourceProp'', PStr ''SURF_PARC''), (''coefSI'', PStr ''*10000'')])],
      b_version = ''2016''\<rparr>"

section \<open>Properties of the resolver\<close>

lemma bind_exn_Inr_iff: "bind_exn m f = Inr x \<longleftrightarrow> (\<exists>v. m = Inr v \<and> f v = Inr x)"
  by (cases m) auto

lemma bind_exn_Inl_iff:
  "bind_exn m f = Inl e \<longleftrightarrow> (m = Inl e \<or> (\<exists>v. m = Inr v \<and> f v = Inl e))"
  by (cases m) auto

lemma parse_body_resolver_Inr:
  assumes "parse_body_resolver lib body = Inr (year, region)"
  shows "py_getitem body ''year'' = Inr year \<and> py_getitem body ''region'' = Inr region"
  using assms unfolding parse_body_resolver_def
  by (auto simp: bind_exn_Inr_iff split: if_splits)

text \<open>
  Claim C5. For a request that \<^verbatim>\<open>parse_body\<close> accepts and whose region is the integer
  \<open>r\<close>, the region the handler goes on with is that integer, and the region code is
  \<^verbatim>\<open>D97\<close> followed by \<open>r\<close> in decimal when \<open>r\<close> is one of 1, 2, 3, 4, 6, and \<^verbatim>\<open>R\<close>
  followed by \<open>r\<close> otherwise; the code starts with \<^verbatim>\<open>D97\<close> exactly for those five
  regions.
\<close>

theorem region_code_overseas_rule:
  assumes "parse_body_resolver lib body = Inr (year, region)"
    and "py_getitem body ''region'' = Inr (PInt r)"
  shows "region = PInt r
     \<and> region_code lib region =
         (if r \<in> {1, 2, 3, 4, 6} then ''D97'' @ str_int r else ''R'' @ str_int r)
     \<and> (startswith (region_code lib region) ''D97'' \<longleftrightarrow> r \<in> {1, 2, 3, 4, 6})"
proof -
  have "region = PInt r"
    using parse_body_resolver_Inr [OF assms(1)] assms(2) by simp
  then show ?thesis by (simp add: region_code_def)
qed

theorem region_code_overseas_rule_witness:
  "parse_body_resolver example_lib (PDict [(''year'', PInt 2016), (''region'', PInt 3)])
     = Inr (PInt 2016, PInt 3)
   \<and> region_code example_lib (PInt 3) = ''D973''
   \<and> parse_body_resolver example_lib (PDict [(''year'', PInt 2016), (''region'', PInt 24)])
     = Inr (PInt 2016, PInt 24)
   \<and> region_code example_lib (PInt 24) = ''R24''"
proof -
  have a: "parse_body_resolver example_lib (PDict [(''year'', PInt 2016), (''region'', PInt 3)])
     = Inr (PInt 2016, PInt 3)"
    by (simp add: parse_body_resolver_def)
  have b: "parse_body_resolver example_lib (PDict [(''year'', PInt 2016), (''region'', PInt 24)])
     = Inr (PInt 2016, PInt 24)"
    by (simp add: parse_body_resolver_def)
  show ?thesis
    using region_code_overseas_rule [OF a, of 3] region_code_overseas_rule [OF b, of 24] a b
    by (simp add: str_int_def str_nat.simps)
qed

text \<open>
  Claim C7, at the input where the code departs from it. The service is ready and the
  request is \<^verbatim>\<open>{"year": "abc", "region": 24}\<close>: \<^verbatim>\<open>int("abc")\<close> raises \<^verbatim>\<open>ValueError\<close>
  inside \<^verbatim>\<open>parse_body\<close>, before the test that would raise the 400 error, and the
  handler's catch-all clause answers with status 500.
\<close>

theorem resolver_non_integer_year_is_internal_error:
  "handler_resolver lib env (st\<lparr>res_done_loading := True\<rparr>)
     (PDict [(''year'', PStr ''abc''), (''region'', PInt 24)])
   = (Response (Unexpected ValueError) 500, st\<lparr>res_done_loading := True\<rparr>)"
  by (simp add: handler_resolver_def try_resolver_def parse_body_resolver_def
      int_of_string_def strip_def is_space_def digit_of_def codes_internal_server_error_def)

text \<open>
  Claim C8, as the code has it. The service is ready, the request is
  \<^verbatim>\<open>{"year": 2016, "region": 24}\<close>, and the catalog page yields exactly one link that
  matches the pattern built for \<^verbatim>\<open>2016\<close> and \<^verbatim>\<open>R24\<close>, ending in \<^verbatim>\<open>7z\<close> or \<^verbatim>\<open>7z.001\<close>.
  Then the handler answers 200 after producing and flushing one download command,
  whose \<^verbatim>\<open>sourceID\<close> is the string \<^verbatim>\<open>lpis:fr:R24\<close> and whose \<^verbatim>\<open>version\<close> is the year as
  received, the integer 2016; the processor's \<^verbatim>\<open>parse_body\<close> reads that command's
  version as the text \<^verbatim>\<open>2016\<close>.
\<close>

theorem resolver_download_command_2016_R24:
  assumes "res_done_loading st"
    and "fetch_anchors env (res_lpis_fr_ign_rpg_url st) = Inr hrefs"
    and "search_links env (archive_regex ''2016'' ''R24'') hrefs = [link]"
    and "endswith link ''7z'' \<or> endswith link ''7z.001''"
  shows "handler_resolver lib env st (PDict [(''year'', PInt 2016), (''region'', PInt 24)])
           = (Response (Described (''Archive '' @ quoted link
                 @ '' successfully submitted for ingestion'')) 200,
              st\<lparr>res_producer := flush (produce (res_target_topic st)
                     (download_cmd link ''lpis:fr:R24'' (PInt 2016)) (res_producer st))\<rparr>)
       \<and> py_getitem (download_cmd link ''lpis:fr:R24'' (PInt 2016)) ''sourceID''
           = Inr (PStr ''lpis:fr:R24'')
       \<and> py_getitem (download_cmd link ''lpis:fr:R24'' (PInt 2016)) ''version''
           = Inr (PInt 2016)
       \<and> map_sum id b_version
            (parse_body_processor lib (download_cmd link ''lpis:fr:R24'' (PInt 2016)))
           = Inr ''2016''"
proof -
  have pb: "parse_body_resolver lib (PDict [(''year'', PInt 2016), (''region'', PInt 24)])
            = Inr (PInt 2016, PInt 24)"
    by (simp add: parse_body_resolver_def)
  have rc: "region_code lib (PInt 24) = ''R24''"
    by (simp add: region_code_def str_int_def str_nat.simps)
  have y: "str_int 2016 = ''2016''"
    by (simp add: str_int_def str_nat.simps)
  have h: "handler_resolver lib env st (PDict [(''year'', PInt 2016), (''region'', PInt 24)])
           = (Response (Described (''Archive '' @ quoted link
                 @ '' successfully submitted for ingestion'')) 200,
              st\<lparr>res_producer := flush (produce (res_target_topic st)
                     (download_cmd link ''lpis:fr:R24'' (PInt 2016)) (res_producer st))\<rparr>)"
    using assms
    by (simp add: handler_resolver_def try_resolver_def pb rc y source_id_cfg_def codes_ok_def
        Let_def del: endswith.simps)
  have p: "map_sum id b_version
            (parse_body_processor lib (download_cmd link ''lpis:fr:R24'' (PInt 2016)))
           = Inr ''2016''"
    by (simp add: parse_body_processor_def download_cmd_def lower_char_def
        normalized_parcel_properties_cfg_def accepted_source_id_def y)
  show ?thesis using h p by (simp add: download_cmd_def)
qed

lemma example_links:
  "search_links example_resolver_env (archive_regex ''2016'' ''R24'')
     [None, Some [],
      Some ''http://host/RPG_2-0__SHP_LAMB93_R24-2016_2016-01-01.7z'',
      Some ''http://host/RPG_2-0__SHP_LAMB93_R27-2016_2016-01-01.7z'',
      Some ''http://host/DC_DL_RPG_2-0.pdf'']
   = [''http://host/RPG_2-0__SHP_LAMB93_R24-2016_2016-01-01.7z'']"
  by (simp add: example_resolver_env_def archive_regex_def)

theorem resolver_download_command_2016_R24_witness:
  "res_done_loading (ready_resolver :: unit resolver_state)
   \<and> endswith ''http://host/RPG_2-0__SHP_LAMB93_R24-2016_2016-01-01.7z'' ''7z''
   \<and> handler_resolver example_lib example_resolver_env ready_resolver
        (PDict [(''year'', PInt 2016), (''region'', PInt 24)])
      = (Response (Described (''Archive '' @ quoted ''http://host/RPG_2-0__SHP_LAMB93_R24-2016_2016-01-01.7z''
                 @ '' successfully submitted for ingestion'')) 200,
         ready_resolver\<lparr>res_producer := \<lparr>queued = [], delivered = [(''lpis-archives'',
            download_cmd ''http://host/RPG_2-0__SHP_LAMB93_R24-2016_2016-01-01.7z''
              ''lpis:fr:R24'' (PInt 2016))]\<rparr>\<rparr>)"
proof -
  have r: "res_done_loading (ready_resolver :: unit resolver_state)"
    by (simp add: ready_resolver_def)
  have f: "fetch_anchors example_resolver_env
             (res_lpis_fr_ign_rpg_url (ready_resolver :: unit resolver_state))
           = Inr [None, Some [],
      Some ''http://host/RPG_2-0__SHP_LAMB93_R24-2016_2016-01-01.7z'',
      Some ''http://host/RPG_2-0__SHP_LAMB93_R27-2016_2016-01-01.7z'',
      Some ''http://host/DC_DL_RPG_2-0.pdf'']"
    by (simp add: example_resolver_env_def)
  have e: "endswith ''http://host/RPG_2-0__SHP_LAMB93_R24-2016_2016-01-01.7z'' ''7z''
           \<or> endswith ''http://host/RPG_2-0__SHP_LAMB93_R24-2016_2016-01-01.7z'' ''7z.001''"
    by simp
  note t = resolver_download_command_2016_R24 [OF r f example_links e, of example_lib]
  show ?thesis
    using t r
    by (simp add: handler_resolver_def try_resolver_def parse_body_resolver_def region_code_def
      str_int_def str_nat.simps example_resolver_env_def archive_regex_def ready_resolver_def
      source_id_cfg_def produce_def flush_def codes_ok_def Let_def)
qed

text \<open>
  The claim C8 as stated fails on the version field: in the command the resolver
  delivers for \<^verbatim>\<open>{"year": 2016, "region": 24}\<close> it is the integer 2016, not the string.
\<close>

theorem resolver_version_is_not_text:
  "map (\<lambda>m. py_getitem (snd m) ''version'')
     (delivered (res_producer (snd (handler_resolver example_lib example_resolver_env
        ready_resolver (PDict [(''year'', PInt 2016), (''region'', PInt 24)])))))
   = [Inr (PInt 2016)]
   \<and> map (\<lambda>m. py_getitem (snd m) ''version'')
     (delivered (res_producer (snd (handler_resolver example_lib example_resolver_env
        ready_resolver (PDict [(''year'', PInt 2016), (''region'', PInt 24)])))))
   \<noteq> [Inr (PStr ''2016'')]"
  by (simp add: handler_resolver_def try_resolver_def parse_body_resolver_def region_code_def
      str_int_def str_nat.simps example_resolver_env_def archive_regex_def ready_resolver_def
      source_id_cfg_def download_cmd_def produce_def flush_def Let_def)

section \<open>Properties of the ingestor\<close>

lemma shape_reproject_tree: "shape_of (reproject_tree f t) = shape_of t"
  by (induction t) auto

lemma reproject_point: "numeric x \<Longrightarrow> reproject_coordinates tr [x, y] = tr [x, y]"
  by (cases x) (auto simp: reproject_coordinates.simps)

lemma py_iter_embed: "\<exists>l. embed t = PList l \<and> py_iter (embed t) = Inr l"
  by (cases t) auto

lemma reproject_loop_embed:
  assumes "\<And>t. t \<in> set ts \<Longrightarrow>
             bind_exn (py_iter (embed t)) (reproject_coordinates tr) = Inr (embed (g t))"
  shows "reproject_loop tr coords (map embed ts) acc
           = Inr (PList (acc @ map (\<lambda>t. embed (g t)) ts))"
  using assms
proof (induction ts arbitrary: acc)
  case Nil
  then show ?case by simp
next
  case (Cons t ts)
  obtain l where l: "embed t = PList l" "py_iter (embed t) = Inr l"
    using py_iter_embed by blast
  have "bind_exn (py_iter (embed t)) (reproject_coordinates tr) = Inr (embed (g t))"
    using Cons.prems by simp
  then have rc: "reproject_coordinates tr l = Inr (embed (g t))"
    using l by simp
  have "reproject_loop tr coords (map embed ts) (acc @ [embed (g t)]) =
        Inr (PList ((acc @ [embed (g t)]) @ map (\<lambda>t. embed (g t)) ts))"
    using Cons.IH [of "acc @ [embed (g t)]"] Cons.prems by simp
  then show ?case using l rc by simp
qed

lemma reproject_sequence:
  assumes "\<And>t. t \<in> set ts \<Longrightarrow>
             bind_exn (py_iter (embed t)) (reproject_coordinates tr) = Inr (embed (g t))"
  shows "reproject_coordinates tr (map embed ts) = Inr (PList (map (\<lambda>t. embed (g t)) ts))"
  using reproject_loop_embed [of ts tr g "map embed ts" "[]", OF assms]
  by (simp add: reproject_coordinates.simps)

text \<open>
  Claim C4. Let \<open>t\<close> be a well-formed coordinate tree (points are numeric pairs), and
  let the transform of a numeric pair \<open>x, y\<close> be the pair \<open>f x y\<close>. Then
  \<^verbatim>\<open>reproject_coordinates\<close>, run on the nested lists of \<open>t\<close>, returns the nested lists
  of the tree in which every point is replaced by its transform: a tree of the same
  nesting, and nothing else changed.
\<close>

theorem reproject_coordinates_preserves_shape:
  assumes "numeric_tree t"
    and "\<And>x y. numeric x \<Longrightarrow> numeric y \<Longrightarrow>
           tr [x, y] = Inr (PList [fst (f x y), snd (f x y)])"
  shows "bind_exn (py_iter (embed t)) (reproject_coordinates tr)
           = Inr (embed (reproject_tree f t))
         \<and> shape_of (reproject_tree f t) = shape_of t"
proof -
  have "bind_exn (py_iter (embed t)) (reproject_coordinates tr)
          = Inr (embed (reproject_tree f t))"
    using assms(1)
  proof (induction t)
    case (Point x y)
    then show ?case using assms(2) [of x y] reproject_point [of x tr y] by simp
  next
    case (Sequence ts)
    have "\<And>t. t \<in> set ts \<Longrightarrow>
             bind_exn (py_iter (embed t)) (reproject_coordinates tr)
               = Inr (embed (reproject_tree f t))"
      using Sequence by (simp add: list_all_iff)
    from reproject_sequence [of ts tr "reproject_tree f", OF this]
    show ?case by (simp add: comp_def)
  qed
  then show ?thesis by (simp add: shape_reproject_tree)
qed

theorem reproject_coordinates_preserves_shape_witness:
  "numeric_tree (Sequence [Sequence [Point (PInt 1) (PInt 2), Point (PInt 3) (PInt 4)],
                           Sequence []] :: unit coord_tree)
   \<and> bind_exn (py_iter (PList [PList [PList [PInt 1, PInt 2], PList [PInt 3, PInt 4]], PList []]))
        (reproject_coordinates swap_transform)
      = Inr (PList [PList [PList [PInt 2, PInt 1], PList [PInt 4, PInt 3]], PList []] :: unit pyval)"
proof -
  have nt: "numeric_tree (Sequence [Sequence [Point (PInt 1) (PInt 2), Point (PInt 3) (PInt 4)],
                                    Sequence []] :: unit coord_tree)"
    by simp
  have tr: "\<And>x y :: unit pyval. numeric x \<Longrightarrow> numeric y \<Longrightarrow>
      swap_transform [x, y] = Inr (PList [fst ((\<lambda>x y. (y, x)) x y), snd ((\<lambda>x y. (y, x)) x y)])"
    by simp
  show ?thesis
    using reproject_coordinates_preserves_shape
            [of "Sequence [Sequence [Point (PInt 1) (PInt 2), Point (PInt 3) (PInt 4)], Sequence []]"
                swap_transform "\<lambda>x y. (y, x)", OF nt tr] nt
    by simp
qed

text \<open>
  Claim C1, at the input where the code departs from it. The ingestor has loaded its
  default configuration (target \<^verbatim>\<open>'4326'\<close>, a string) and receives a point feature
  whose crs code is the integer 4326, as the processor writes it. The test
  \<^verbatim>\<open>code != FunctionConfig.target_crs_epsg_code\<close> compares an int with a string and
  holds, so the handler builds both projections from \<^verbatim>\<open>EPSG:4326\<close> and stores the
  coordinates that \<^verbatim>\<open>transform\<close> returns, whatever they are.
\<close>

theorem ingestor_reprojects_integer_code_4326:
  "handler_ingestor lib \<lparr>proj_init = Inr, transform = tr\<rparr> (ready_ingestor [])
     (example_feature (PList [PInt 1, PInt 2])
        (PDict [(''crs'', crs_tag 4326), (''version'', PStr ''2016'')]))
   = (case tr ''EPSG:4326'' ''EPSG:4326'' [PInt 1, PInt 2] of
        Inl e \<Rightarrow> (as_response e, ready_ingestor [])
      | Inr new_coordinates \<Rightarrow>
          (NoReply, (ready_ingestor [])\<lparr>ing_collection :=
             [example_feature new_coordinates
                (PDict [(''crs'', crs_tag 4326), (''version'', PStr ''2016'')])]\<rparr>))"
  by (simp add: handler_ingestor_def try_ingestor_def check_crs_def ready_ingestor_def
      load_configs_ingestor_def getenv_def example_feature_def crs_tag_def
      str_int_def str_nat.simps reproject_coordinates.simps split: sum.splits)

lemma dict_set_other: "k' \<noteq> k \<Longrightarrow> map_of (dict_set k v d) k' = map_of d k'"
  by (induction d) auto

lemma py_setitem_other:
  "py_setitem obj k v = Inr obj' \<Longrightarrow> k' \<noteq> k \<Longrightarrow> py_getitem obj' k' = py_getitem obj k'"
  by (cases obj) (auto simp: dict_set_other)

lemma check_crs_other:
  assumes "check_crs lib env st body = Inr doc" and "k \<noteq> ''geometry''"
  shows "py_getitem doc k = py_getitem body k"
  using assms unfolding check_crs_def
  by (auto simp: bind_exn_Inr_iff py_setitem_other split: if_splits)

lemma replace_one_other:
  "filter (\<lambda>d. doc_id d \<noteq> Inr i) (replace_one i doc ds) = filter (\<lambda>d. doc_id d \<noteq> Inr i) ds"
  if "doc_id doc = Inr i"
  using that by (induction ds) auto

lemma replace_one_ids:
  "doc_id doc = Inr i \<Longrightarrow> set (map doc_id (replace_one i doc ds)) = insert (Inr i) (set (map doc_id ds))"
  by (induction ds) auto

lemma replace_one_distinct:
  "doc_id doc = Inr i \<Longrightarrow> distinct (map doc_id ds) \<Longrightarrow> distinct (map doc_id (replace_one i doc ds))"
proof (induction ds)
  case Nil
  then show ?case by simp
next
  case (Cons d ds)
  show ?case
  proof (cases "doc_id d = Inr i")
    case True
    then show ?thesis using Cons.prems by simp
  next
    case False
    have "doc_id d \<notin> set (map doc_id (replace_one i doc ds))"
      using False Cons.prems replace_one_ids [of doc i ds] by auto
    then show ?thesis using False Cons by simp
  qed
qed

lemma replace_one_same:
  "doc_id doc = Inr i \<Longrightarrow> distinct (map doc_id ds) \<Longrightarrow>
     filter (\<lambda>d. doc_id d = Inr i) (replace_one i doc ds) = [doc]"
proof (induction ds)
  case Nil
  then show ?case by simp
next
  case (Cons d ds)
  show ?case
  proof (cases "doc_id d = Inr i")
    case True
    then have "\<forall>x \<in> set ds. doc_id x \<noteq> Inr i"
      using Cons.prems by force
    then have "filter (\<lambda>d. doc_id d = Inr i) ds = []"
      by (simp add: filter_empty_conv)
    then show ?thesis using True Cons.prems by simp
  next
    case False
    then show ?thesis using Cons by simp
  qed
qed

text \<open>
  Claim C3. The collection holds at most one document per \<^verbatim>\<open>_id\<close>, and the handler
  returns normally on \<open>body\<close>. Then the body has an \<^verbatim>\<open>_id\<close>, the document handed to the
  store is the body (its coordinates reprojected where needed, its \<^verbatim>\<open>_id\<close> and
  properties as received), and afterwards the collection holds exactly one document
  with that \<^verbatim>\<open>_id\<close>, which is this document whatever was stored before; the documents
  with another \<^verbatim>\<open>_id\<close> are as they were, and there is still at most one document per
  \<^verbatim>\<open>_id\<close>. Ingesting the same \<^verbatim>\<open>_id\<close> twice therefore leaves the second version alone.
\<close>

theorem ingestor_upsert_replaces_document:
  assumes "distinct (map doc_id (ing_collection st))"
    and "handler_ingestor lib env st body = (NoReply, st')"
  shows "\<exists>i doc. doc_id body = Inr i \<and> check_crs lib env st body = Inr doc
        \<and> doc_id doc = Inr i
        \<and> py_getitem doc ''properties'' = py_getitem body ''properties''
        \<and> filter (\<lambda>d. doc_id d = Inr i) (ing_collection st') = [doc]
        \<and> filter (\<lambda>d. doc_id d \<noteq> Inr i) (ing_collection st')
            = filter (\<lambda>d. doc_id d \<noteq> Inr i) (ing_collection st)
        \<and> distinct (map doc_id (ing_collection st'))"
proof -
  have "try_ingestor lib env st body = Inr st'"
    using assms(2) unfolding handler_ingestor_def
    by (cases "try_ingestor lib env st body"; cases "projl (try_ingestor lib env st body)") auto
  then obtain i doc where i: "py_getitem body ''_id'' = Inr i"
    and doc: "check_crs lib env st body = Inr doc"
    and st': "st' = st\<lparr>ing_collection := replace_one i doc (ing_collection st)\<rparr>"
    unfolding try_ingestor_def by (auto simp: bind_exn_Inr_iff split: if_splits)
  have id: "doc_id doc = Inr i"
    using check_crs_other [OF doc, of "''_id''"] i by (simp add: doc_id_def)
  have props: "py_getitem doc ''properties'' = py_getitem body ''properties''"
    using check_crs_other [OF doc, of "''properties''"] by simp
  show ?thesis
    using i doc id props st' assms(1)
    by (simp add: doc_id_def [of body] replace_one_same replace_one_other replace_one_distinct)
qed

theorem ingestor_upsert_replaces_document_witness:
  "distinct (map doc_id (ing_collection
       ((ready_ingestor [PDict [(''_id'', PStr ''lpis:fr:R24:7'')]])\<lparr>ing_collection :=
          [PDict [(''_id'', PStr ''lpis:fr:R24:7'')],
           example_feature (PList [PInt 2, PInt 1])
             (PDict [(''crs'', crs_tag 2154), (''area'', PInt 10)]) :: unit pyval]\<rparr>)))
   \<and> handler_ingestor example_lib example_ingestor_env
        (ready_ingestor [PDict [(''_id'', PStr ''lpis:fr:R24:7'')]])
        (example_feature (PList [PInt 1, PInt 2]) (PDict [(''crs'', crs_tag 2154), (''area'', PInt 10)]))
      = (NoReply, (ready_ingestor [PDict [(''_id'', PStr ''lpis:fr:R24:7'')]])\<lparr>ing_collection :=
          [PDict [(''_id'', PStr ''lpis:fr:R24:7'')],
           example_feature (PList [PInt 2, PInt 1])
             (PDict [(''crs'', crs_tag 2154), (''area'', PInt 10)])]\<rparr>)
   \<and> handler_ingestor example_lib example_ingestor_env
        ((ready_ingestor [PDict [(''_id'', PStr ''lpis:fr:R24:7'')]])\<lparr>ing_collection :=
          [PDict [(''_id'', PStr ''lpis:fr:R24:7'')],
           example_feature (PList [PInt 2, PInt 1])
             (PDict [(''crs'', crs_tag 2154), (''area'', PInt 10)])]\<rparr>)
        (example_feature (PList [PInt 3, PInt 4]) (PDict [(''crs'', crs_tag 2154), (''area'', PInt 25)]))
      = (NoReply, (ready_ingestor [PDict [(''_id'', PStr ''lpis:fr:R24:7'')]])\<lparr>ing_collection :=
          [PDict [(''_id'', PStr ''lpis:fr:R24:7'')],
           example_feature (PList [PInt 4, PInt 3])
             (PDict [(''crs'', crs_tag 2154), (''area'', PInt 25)])]\<rparr>)"
proof -
  let ?other = "PDict [(''_id'', PStr ''lpis:fr:R24:7'')] :: unit pyval"
  let ?st0 = "ready_ingestor [?other]"
  let ?v1 = "example_feature (PList [PInt 1, PInt 2]) (PDict [(''crs'', crs_tag 2154), (''area'', PInt 10)]) :: unit pyval"
  let ?d1 = "example_feature (PList [PInt 2, PInt 1]) (PDict [(''crs'', crs_tag 2154), (''area'', PInt 10)]) :: unit pyval"
  let ?v2 = "example_feature (PList [PInt 3, PInt 4]) (PDict [(''crs'', crs_tag 2154), (''area'', PInt 25)]) :: unit pyval"
  let ?d2 = "example_feature (PList [PInt 4, PInt 3]) (PDict [(''crs'', crs_tag 2154), (''area'', PInt 25)]) :: unit pyval"
  let ?st1 = "?st0\<lparr>ing_collection := [?other, ?d1]\<rparr>"
  let ?st2 = "?st0\<lparr>ing_collection := [?other, ?d2]\<rparr>"
  have d: "distinct (map doc_id (ing_collection ?st1))"
    by (simp add: doc_id_def example_feature_def)
  have s1: "handler_ingestor example_lib example_ingestor_env ?st0 ?v1 = (NoReply, ?st1)"
    by (simp add: handler_ingestor_def try_ingestor_def check_crs_def ready_ingestor_def
      load_configs_ingestor_def getenv_def example_feature_def crs_tag_def doc_id_def
      example_ingestor_env_def example_lib_def
      str_int_def str_nat.simps reproject_coordinates.simps)
  have s2: "handler_ingestor example_lib example_ingestor_env ?st1 ?v2 = (NoReply, ?st2)"
    by (simp add: handler_ingestor_def try_ingestor_def check_crs_def ready_ingestor_def
      load_configs_ingestor_def getenv_def example_feature_def crs_tag_def doc_id_def
      example_ingestor_env_def example_lib_def
      str_int_def str_nat.simps reproject_coordinates.simps)
  show ?thesis
    using ingestor_upsert_replaces_document [OF d s2] d s1 s2 by simp
qed

lemma py_getitem_Inl: "py_getitem v k = Inl e \<Longrightarrow> e = KeyError \<or> e = TypeError"
  by (cases v) (auto split: option.splits)

lemma py_path_Inl: "py_path v ks = Inl e \<Longrightarrow> e = KeyError \<or> e = TypeError"
proof (induction ks arbitrary: v)
  case Nil
  then show ?case by simp
next
  case (Cons k ks)
  then show ?case by (auto simp: bind_exn_Inl_iff dest: py_getitem_Inl)
qed

lemma as_response_builtin:
  "e = KeyError \<or> e = TypeError \<Longrightarrow> as_response e = Response (Unexpected e) codes_internal_server_error"
  by auto

lemma py_path_crs_contains:
  assumes "py_path body [''properties'', ''crs'', ''type''] = Inr ty"
  shows "\<exists>props. py_getitem body ''properties'' = Inr props \<and> py_contains ''crs'' props = Inr True"
proof -
  from assms obtain props crs where p: "py_getitem body ''properties'' = Inr props"
    and c: "py_getitem props ''crs'' = Inr crs"
    by (auto simp: bind_exn_Inr_iff)
  from c have "py_contains ''crs'' props = Inr True"
    by (cases props) (auto split: option.splits)
  with p show ?thesis by blast
qed

text \<open>
  Claim C9, as the code has it. The service is ready and the body has an \<^verbatim>\<open>_id\<close>.
  A feature whose properties hold no \<^verbatim>\<open>crs\<close> entry is upserted as received: no
  reprojection, no error. A feature that declares an EPSG code other than the target,
  both projections resolving, and whose \<^verbatim>\<open>geometry\<close> or its \<^verbatim>\<open>coordinates\<close> entry is
  missing, is not upserted: the handler answers with the catch-all status 500.
\<close>

theorem ingestor_missing_crs_or_coordinates:
  assumes "ing_done_loading st" and "py_getitem body ''_id'' = Inr i"
  shows "(py_getitem body ''properties'' = Inr props \<and> py_contains ''crs'' props = Inr False
           \<longrightarrow> handler_ingestor lib env st body
                 = (NoReply, st\<lparr>ing_collection := replace_one i body (ing_collection st)\<rparr>))
       \<and> (py_path body [''properties'', ''crs'', ''type''] = Inr (PStr ''EPSG'')
          \<and> py_path body [''properties'', ''crs'', ''properties'', ''code''] = Inr code
          \<and> code \<noteq> PStr (ing_target_crs_epsg_code st)
          \<and> proj_init env (''EPSG:'' @ py_str lib code) = Inr p1
          \<and> proj_init env (''EPSG:'' @ ing_target_crs_epsg_code st) = Inr p2
          \<and> py_path body [''geometry'', ''coordinates''] = Inl e
           \<longrightarrow> handler_ingestor lib env st body
                 = (Response (Unexpected e) codes_internal_server_error, st))"
proof (intro conjI impI)
  assume "py_getitem body ''properties'' = Inr props \<and> py_contains ''crs'' props = Inr False"
  then show "handler_ingestor lib env st body
      = (NoReply, st\<lparr>ing_collection := replace_one i body (ing_collection st)\<rparr>)"
    using assms by (simp add: handler_ingestor_def try_ingestor_def check_crs_def)
next
  assume a: "py_path body [''properties'', ''crs'', ''type''] = Inr (PStr ''EPSG'')
          \<and> py_path body [''properties'', ''crs'', ''properties'', ''code''] = Inr code
          \<and> code \<noteq> PStr (ing_target_crs_epsg_code st)
          \<and> proj_init env (''EPSG:'' @ py_str lib code) = Inr p1
          \<and> proj_init env (''EPSG:'' @ ing_target_crs_epsg_code st) = Inr p2
          \<and> py_path body [''geometry'', ''coordinates''] = Inl e"
  then obtain props where p: "py_getitem body ''properties'' = Inr props"
      "py_contains ''crs'' props = Inr True"
    using py_path_crs_contains by blast
  have "check_crs lib env st body = Inl e"
    unfolding check_crs_def using a p by simp
  moreover have "as_response e = Response (Unexpected e) codes_internal_server_error"
    using a py_path_Inl as_response_builtin by blast
  ultimately show "handler_ingestor lib env st body
      = (Response (Unexpected e) codes_internal_server_error, st)"
    using assms by (simp add: handler_ingestor_def try_ingestor_def)
qed

theorem ingestor_missing_crs_or_coordinates_witness:
  "ing_done_loading (ready_ingestor ([] :: unit pyval list))
   \<and> handler_ingestor example_lib example_ingestor_env (ready_ingestor [])
        (example_feature (PList [PInt 1, PInt 2]) (PDict [(''version'', PStr ''2016'')]))
      = (NoReply, (ready_ingestor [])\<lparr>ing_collection :=
          [example_feature (PList [PInt 1, PInt 2]) (PDict [(''version'', PStr ''2016'')])]\<rparr>)
   \<and> py_path (PDict [(''_id'', PStr ''lpis:fr:R24:2''),
                      (''properties'', PDict [(''crs'', crs_tag 2154)])] :: unit pyval)
        [''geometry'', ''coordinates''] = Inl KeyError
   \<and> handler_ingestor example_lib example_ingestor_env (ready_ingestor [])
        (PDict [(''_id'', PStr ''lpis:fr:R24:2''), (''properties'', PDict [(''crs'', crs_tag 2154)])])
      = (Response (Unexpected KeyError) 500, ready_ingestor [])"
proof -
  let ?st = "ready_ingestor ([] :: unit pyval list)"
  let ?b1 = "example_feature (PList [PInt 1, PInt 2]) (PDict [(''version'', PStr ''2016'')]) :: unit pyval"
  let ?b2 = "PDict [(''_id'', PStr ''lpis:fr:R24:2''),
                    (''properties'', PDict [(''crs'', crs_tag 2154)])] :: unit pyval"
  have r: "ing_done_loading ?st"
    by (simp add: ready_ingestor_def load_configs_ingestor_def)
  have t: "ing_target_crs_epsg_code ?st = ''4326''"
    by (simp add: ready_ingestor_def load_configs_ingestor_def getenv_def)
  have i1: "py_getitem ?b1 ''_id'' = Inr (PStr ''lpis:fr:R24:1'')"
    by (simp add: example_feature_def)
  have i2: "py_getitem ?b2 ''_id'' = Inr (PStr ''lpis:fr:R24:2'')"
    by simp
  have h1: "py_getitem ?b1 ''properties'' = Inr (PDict [(''version'', PStr ''2016'')])
            \<and> py_contains ''crs'' (PDict [(''version'', PStr ''2016'')] :: unit pyval) = Inr False"
    by (simp add: example_feature_def)
  have h2: "py_path ?b2 [''properties'', ''crs'', ''type''] = Inr (PStr ''EPSG'')
          \<and> py_path ?b2 [''properties'', ''crs'', ''properties'', ''code''] = Inr (PInt 2154)
          \<and> PInt 2154 \<noteq> PStr (ing_target_crs_epsg_code ?st)
          \<and> proj_init example_ingestor_env (''EPSG:'' @ py_str example_lib (PInt 2154)) = Inr ''EPSG:2154''
          \<and> proj_init example_ingestor_env (''EPSG:'' @ ing_target_crs_epsg_code ?st) = Inr ''EPSG:4326''
          \<and> py_path ?b2 [''geometry'', ''coordinates''] = Inl KeyError"
    by (simp add: crs_tag_def example_ingestor_env_def t str_int_def str_nat.simps)
  have ingestor_reprojects_integer_code_4326: "handler_ingestor example_lib example_ingestor_env ?st ?b1
      = (NoReply, ?st\<lparr>ing_collection := replace_one (PStr ''lpis:fr:R24:1'') ?b1 (ing_collection ?st)\<rparr>)"
    using ingestor_missing_crs_or_coordinates [OF r i1, where props = "PDict [(''version'', PStr ''2016'')]" and lib = example_lib
                and env = example_ingestor_env] h1
    by blast
  have c2: "handler_ingestor example_lib example_ingestor_env ?st ?b2
      = (Response (Unexpected KeyError) codes_internal_server_error, ?st)"
    using ingestor_missing_crs_or_coordinates [OF r i2, where code = "PInt 2154" and lib = example_lib
                and env = example_ingestor_env and ?p1.0 = "''EPSG:2154''"
                and ?p2.0 = "''EPSG:4326''" and e = KeyError] h2
    by blast
  have coll: "ing_collection ?st = []"
    by (simp add: ready_ingestor_def load_configs_ingestor_def)
  show ?thesis
    using r h2 ingestor_reprojects_integer_code_4326 c2 by (simp add: coll codes_internal_server_error_def)
qed

text \<open>
  The claim C9 as stated fails on a feature without a \<^verbatim>\<open>crs\<close> entry: the handler
  returns normally and the feature is in the collection, coordinates untouched.
\<close>

theorem ingestor_missing_crs_upserts_silently:
  "handler_ingestor example_lib example_ingestor_env (ready_ingestor [])
     (example_feature (PList [PInt 1, PInt 2]) (PDict [(''version'', PStr ''2016'')]))
   = (NoReply, (ready_ingestor [])\<lparr>ing_collection :=
        [example_feature (PList [PInt 1, PInt 2]) (PDict [(''version'', PStr ''2016'')])]\<rparr>)"
  by (simp add: handler_ingestor_def try_ingestor_def check_crs_def ready_ingestor_def
      load_configs_ingestor_def getenv_def example_feature_def)

section \<open>Properties of the processor\<close>

text \<open>
  Claim C2, at the inputs where the code departs from it. When the service is not
  ready, whatever the body, and when the service is ready and the command lacks its
  \<^verbatim>\<open>url\<close>, the \<^verbatim>\<open>try\<close> block raises before \<^verbatim>\<open>tmp_dir\<close> is bound; the \<^verbatim>\<open>except\<close> clause
  prepares the response, and the \<^verbatim>\<open>finally\<close> clause then raises \<^verbatim>\<open>UnboundLocalError\<close>
  on \<^verbatim>\<open>shutil.rmtree(tmp_dir)\<close>: the handler ends by raising, with no response.
\<close>

theorem processor_cleanup_raises_when_tmp_dir_unbound:
  "handler_processor lib env (st\<lparr>proc_done_loading := False\<rparr>) event_id body
     = (Inl UnboundLocalError, st\<lparr>proc_done_loading := False\<rparr>)
   \<and> handler_processor lib env (st\<lparr>proc_done_loading := True\<rparr>) event_id
       (PDict [(''format'', PStr ''7z''), (''sourceID'', PStr ''lpis:fr:R24'')])
     = (Inl UnboundLocalError, st\<lparr>proc_done_loading := True\<rparr>)"
  by (simp add: handler_processor_def try_processor_def finally_processor_def
      parse_body_processor_def lower_char_def)

lemma lower_char_simps: "map lower_char ''7z'' = ''7z''" "map lower_char ''7Z'' = ''7z''"
  "map lower_char ''zip'' = ''zip''"
  by (simp_all add: lower_char_def)

text \<open>
  Claim C6, as the code has it. For a download command (a JSON object) whose
  \<^verbatim>\<open>format\<close> is absent, or is a string other than \<^verbatim>\<open>7z\<close> once put in lower case,
  \<^verbatim>\<open>parse_body\<close> raises the \<^verbatim>\<open>NuclioResponseError\<close> with status 400, and the handler
  opens no URL.
\<close>

theorem processor_rejects_unsupported_format:
  assumes "map_of d ''format'' = None
           \<or> (\<exists>s. map_of d ''format'' = Some (PStr s) \<and> map lower_char s \<noteq> ''7z'')"
  shows "(\<exists>description. parse_body_processor lib (PDict d)
                          = Inl (NuclioResponseError description 400))
       \<and> proc_downloads (snd (handler_processor lib env st event_id (PDict d)))
           = proc_downloads st"
proof -
  have pb: "\<exists>description. parse_body_processor lib (PDict d)
                          = Inl (NuclioResponseError description 400)"
    using assms by (auto simp: parse_body_processor_def codes_bad_def)
  then have "\<exists>r. try_processor lib env st event_id (PDict d) = (r, None, st)"
    by (cases "proc_done_loading st") (auto simp: try_processor_def)
  then obtain r where "try_processor lib env st event_id (PDict d) = (r, None, st)"
    by blast
  then have "handler_processor lib env st event_id (PDict d) = (Inl UnboundLocalError, st)"
    by (simp add: handler_processor_def finally_processor_def)
  then show ?thesis using pb by simp
qed

theorem processor_rejects_unsupported_format_witness:
  "map_of [(''format'', PStr ''zip'' :: unit pyval), (''url'', PStr ''http://host/a.zip'')] ''format''
      = Some (PStr ''zip'')
   \<and> map lower_char ''zip'' \<noteq> ''7z''
   \<and> parse_body_processor example_lib
        (PDict [(''format'', PStr ''zip''), (''url'', PStr ''http://host/a.zip'')])
      = Inl (NuclioResponseError (''Archive'' @ [CHR 0x27] @ ''s '' @ quoted ''format''
              @ '' must be '' @ quoted ''7z'' @ '' !'') 400)
   \<and> proc_downloads (snd (handler_processor example_lib example_processor_env ready_processor
        ''e1'' (PDict [(''format'', PStr ''zip''), (''url'', PStr ''http://host/a.zip'')]))) = []"
proof -
  have h: "map_of [(''format'', PStr ''zip'' :: unit pyval), (''url'', PStr ''http://host/a.zip'')]
             ''format'' = None
           \<or> (\<exists>s. map_of [(''format'', PStr ''zip'' :: unit pyval),
                            (''url'', PStr ''http://host/a.zip'')] ''format'' = Some (PStr s)
                  \<and> map lower_char s \<noteq> ''7z'')"
    by (simp add: lower_char_simps)
  have pb: "parse_body_processor example_lib
        (PDict [(''format'', PStr ''zip''), (''url'', PStr ''http://host/a.zip'')])
      = Inl (NuclioResponseError (''Archive'' @ [CHR 0x27] @ ''s '' @ quoted ''format''
              @ '' must be '' @ quoted ''7z'' @ '' !'') 400)"
    by (simp add: parse_body_processor_def lower_char_simps codes_bad_def)
  show ?thesis
    using processor_rejects_unsupported_format [OF h, of example_lib example_processor_env ready_processor "''e1''"] pb
    by (simp add: lower_char_simps ready_processor_def)
qed

text \<open>
  The claim C6 as stated fails on a format that differs from \<^verbatim>\<open>7z\<close> by case only:
  \<^verbatim>\<open>parse_body\<close> accepts \<^verbatim>\<open>7Z\<close>, and the handler goes on to open the archive's URL.
\<close>

theorem processor_accepts_uppercase_format:
  "parse_body_processor example_lib (example_command ''7Z'')
     = Inr \<lparr>b_archive_format = ''7Z'',
            b_archive_url = PStr ''http://host/RPG_2-0__SHP_LAMB93_R24-2016_2016-01-01.7z'',
            b_source_id = ''lpis:fr:R24'',
            b_parcel_id_field = PStr ''ID_PARCEL'',
            b_normalized_parcel_properties =
              [(''area'', PDict [(''sourceProp'', PStr ''SURF_PARC''), (''coefSI'', PStr ''*10000'')])],
            b_version = ''2016''\<rparr>
   \<and> proc_downloads (snd (handler_processor example_lib
         (example_processor_env\<lparr>urlopen_ok := (\<lambda>url. False)\<rparr>) ready_processor ''e1''
         (example_command ''7Z'')))
     = [''http://host/RPG_2-0__SHP_LAMB93_R24-2016_2016-01-01.7z'']"
  by (simp add: parse_body_processor_def example_command_def lower_char_def
      normalized_parcel_properties_cfg_def accepted_source_id_def str_int_def str_nat.simps
      handler_processor_def try_processor_def finally_processor_def create_temporary_dir_def
      ready_processor_def process_archive_def download_file_def example_processor_env_def
      rmtree_def Let_def)

lemma handed_produce: "handed (produce topic v p) = handed p @ [(topic, v)]"
  by (simp add: handed_def produce_def)

lemma handed_flush: "handed (flush p) = handed p"
  by (simp add: handed_def flush_def)

lemma process_records_emits:
  assumes "process_records lib env b crs_code topic fields_name steps count p = (r, p')"
  shows "\<exists>feats. handed p' = handed p @ map (Pair topic) feats
           \<and> length feats \<le> length steps
           \<and> (\<forall>k < length feats.
                 bind_exn (steps ! k) (shape_record_feature lib env b crs_code fields_name)
                   = Inr (feats ! k))
           \<and> (r = Inr (count + length steps) \<and> length feats = length steps
                \<or> (\<exists>e. r = Inl e \<and> length feats < length steps
                     \<and> bind_exn (steps ! length feats)
                          (shape_record_feature lib env b crs_code fields_name) = Inl e))"
  using assms
proof (induction steps arbitrary: count p)
  case Nil
  then show ?case by simp
next
  case (Cons step steps)
  show ?case
  proof (cases "bind_exn step (shape_record_feature lib env b crs_code fields_name)")
    case (Inl e)
    then have "r = Inl e" "p' = p"
      using Cons.prems by (cases step; auto)+
    then show ?thesis using Inl by (intro exI [of _ "[]"]) simp
  next
    case (Inr parcel)
    then obtain sr where sr: "step = Inr sr"
      "shape_record_feature lib env b crs_code fields_name sr = Inr parcel"
      by (cases step) auto
    define p2 where "p2 = (if count mod 1000 = 0 then flush (produce topic parcel p)
                           else produce topic parcel p)"
    have h2: "handed p2 = handed p @ [(topic, parcel)]"
      by (simp add: p2_def handed_produce handed_flush)
    have "process_records lib env b crs_code topic fields_name steps (count + 1) p2 = (r, p')"
      using Cons.prems sr by (simp add: p2_def)
    from Cons.IH [OF this] obtain feats where f:
      "handed p' = handed p2 @ map (Pair topic) feats"
      "length feats \<le> length steps"
      "\<forall>k < length feats.
         bind_exn (steps ! k) (shape_record_feature lib env b crs_code fields_name)
           = Inr (feats ! k)"
      "r = Inr (count + 1 + length steps) \<and> length feats = length steps
         \<or> (\<exists>e. r = Inl e \<and> length feats < length steps
              \<and> bind_exn (steps ! length feats)
                   (shape_record_feature lib env b crs_code fields_name) = Inl e)"
      by blast
    have idx: "\<forall>k < length (parcel # feats).
         bind_exn ((step # steps) ! k) (shape_record_feature lib env b crs_code fields_name)
           = Inr ((parcel # feats) ! k)"
      using f(3) Inr by (auto simp: nth_Cons split: nat.splits)
    show ?thesis
      using f(1,2,4) h2 idx by (intro exI [of _ "parcel # feats"]) auto
  qed
qed

lemma shape_record_feature_id:
  assumes "shape_record_feature lib env b crs_code fields_name sr = Inr parcel"
  shows "\<exists>key n. record_key fields_name (b_parcel_id_field b) sr = Inr (Some key)
           \<and> py_int lib key = Inr n
           \<and> py_getitem parcel ''_id'' = Inr (PStr (b_source_id b @ '':'' @ str_int n))"
  using assms unfolding shape_record_feature_def natural_key_def record_key_def
  by (auto simp: Let_def bind_exn_Inr_iff split: option.splits)

lemma shape_record_feature_no_key:
  assumes "record_key fields_name (b_parcel_id_field b) sr = Inr (Some key)"
    and "py_int lib key = Inl e"
  shows "shape_record_feature lib env b crs_code fields_name sr = Inl e"
  using assms unfolding shape_record_feature_def natural_key_def record_key_def
  by (simp add: Let_def)

lemma digit_of_nth: "n < 10 \<Longrightarrow> digit_of (''0123456789'' ! n) = Some n"
proof -
  assume "n < 10"
  then have "n \<in> {0, 1, 2, 3, 4, 5, 6, 7, 8, 9}" by auto
  then show ?thesis by (auto simp: digit_of_def)
qed

lemma str_nat_digits: "c \<in> set (str_nat m) \<Longrightarrow> \<exists>d. digit_of c = Some d"
proof (induction m rule: str_nat.induct)
  case (1 n)
  show ?case
  proof (cases "n < 10")
    case True
    then show ?thesis using "1.prems" digit_of_nth [of n] by (simp add: str_nat.simps [of n])
  next
    case False
    then show ?thesis
      using "1.prems" "1.IH" digit_of_nth [of "n mod 10"]
      by (auto simp: str_nat.simps [of n])
  qed
qed

lemma str_nat_not_Nil: "str_nat m \<noteq> []"
  by (simp add: str_nat.simps [of m])

lemma parse_digits_decimal:
  assumes "\<forall>c \<in> set s. \<exists>d. digit_of c = Some d" and "s \<noteq> [] \<or> after_digit"
  shows "parse_digits s acc after_digit = Some (decimal_value acc s)"
  using assms
proof (induction s arbitrary: acc after_digit)
  case Nil
  then show ?case by (simp add: decimal_value_def)
next
  case (Cons c s)
  then obtain d where d: "digit_of c = Some d" by auto
  have "parse_digits s (10 * acc + d) True = Some (decimal_value (10 * acc + d) s)"
    using Cons by simp
  then show ?case using d by (simp add: decimal_value_def)
qed

lemma decimal_value_str_nat: "decimal_value 0 (str_nat m) = m"
proof (induction m rule: str_nat.induct)
  case (1 n)
  show ?case
  proof (cases "n < 10")
    case True
    then show ?thesis
      using digit_of_nth [of n] by (simp add: str_nat.simps [of n] decimal_value_def)
  next
    case False
    then have "decimal_value 0 (str_nat (n div 10)) = n div 10" using 1 by simp
    then show ?thesis
      using False digit_of_nth [of "n mod 10"]
      by (simp add: str_nat.simps [of n] decimal_value_def)
  qed
qed

lemma decimal_value_zeros: "decimal_value 0 (replicate z CHR ''0'' @ s) = decimal_value 0 s"
  by (induction z) (simp_all add: decimal_value_def digit_of_def)

lemma digit_not_space: "digit_of c = Some d \<Longrightarrow> \<not> is_space c"
  by (auto simp: digit_of_def is_space_def split: if_splits)

lemma strip_digits:
  assumes "\<forall>c \<in> set s. \<exists>d. digit_of c = Some d"
  shows "strip s = s"
proof (cases s)
  case Nil
  then show ?thesis by (simp add: strip_def)
next
  case (Cons c cs)
  then have a: "dropWhile is_space s = s"
    using assms digit_not_space by (cases "is_space c") auto
  have "rev s \<noteq> []" using Cons by simp
  then obtain x xs where r: "rev s = x # xs" by (cases "rev s") auto
  then have "x \<in> set s" by (metis list.set_intros(1) set_rev)
  then have "\<not> is_space x" using assms digit_not_space by blast
  then have "dropWhile is_space (rev s) = rev s" using r by simp
  then show ?thesis using a by (simp add: strip_def)
qed

lemma int_of_string_decimal:
  "int_of_string (replicate z CHR ''0'' @ str_nat m) = Some (int m)"
proof -
  let ?s = "replicate z CHR ''0'' @ str_nat m"
  have zero: "digit_of CHR ''0'' = Some 0" by (simp add: digit_of_def)
  have dig: "\<forall>c \<in> set ?s. \<exists>d. digit_of c = Some d"
    using str_nat_digits zero by auto
  have ne: "?s \<noteq> []" using str_nat_not_Nil by simp
  then obtain c cs where cs: "?s = c # cs" by (cases ?s) auto
  then have "c \<in> set ?s" by (metis list.set_intros(1))
  then obtain d where d: "digit_of c = Some d" using dig by blast
  then have sign: "c \<noteq> CHR ''-''" "c \<noteq> CHR ''+''"
    by (auto simp: digit_of_def split: if_splits)
  have "?s \<noteq> [] \<or> False" using ne by blast
  from parse_digits_decimal [OF dig this]
  have "parse_digits ?s 0 False = Some (decimal_value 0 ?s)" .
  then have "parse_digits ?s 0 False = Some m"
    by (simp only: decimal_value_zeros decimal_value_str_nat)
  then have "parse_digits (c # cs) 0 False = Some m"
    by (simp only: cs)
  then show ?thesis
    using strip_digits [OF dig] cs sign by (simp add: int_of_string_def)
qed

lemma parse_digits_bad_char:
  assumes "c \<in> set s" and "digit_of c = None" and "c \<noteq> CHR ''_''"
  shows "parse_digits s acc after_digit = None"
  using assms
proof (induction s arbitrary: acc after_digit)
  case Nil
  then show ?case by simp
next
  case (Cons x xs)
  show ?case
  proof (cases "digit_of x")
    case (Some d)
    then have "c \<in> set xs" using Cons.prems by auto
    then show ?thesis using Some Cons by simp
  next
    case None
    show ?thesis
    proof (cases "x = CHR ''_'' \<and> after_digit")
      case True
      then have "c \<in> set xs" using Cons.prems by auto
      then have "parse_digits xs acc False = None" using Cons by simp
      then show ?thesis using None True by (simp split: list.splits)
    next
      case False
      then show ?thesis using None by auto
    qed
  qed
qed

lemma set_dropWhile_keep: "c \<in> set s \<Longrightarrow> \<not> P c \<Longrightarrow> c \<in> set (dropWhile P s)"
  by (induction s) auto

lemma strip_keeps: "c \<in> set s \<Longrightarrow> \<not> is_space c \<Longrightarrow> c \<in> set (strip s)"
  using set_dropWhile_keep [of c "rev (dropWhile is_space s)" is_space]
        set_dropWhile_keep [of c s is_space]
  by (simp add: strip_def)

lemma int_of_string_bad_char:
  assumes "c \<in> set s" and "digit_of c = None" and "\<not> is_space c"
    and "c \<notin> set ''+-_''"
  shows "int_of_string s = None"
proof -
  have in_strip: "c \<in> set (strip s)" using strip_keeps assms(1,3) by blast
  then obtain x xs where xs: "strip s = x # xs" by (cases "strip s") auto
  have c_: "c \<noteq> CHR ''_''" "c \<noteq> CHR ''+''" "c \<noteq> CHR ''-''" using assms(4) by auto
  have all: "parse_digits (x # xs) 0 False = None"
    using parse_digits_bad_char [of c "x # xs"] in_strip xs assms(2) c_ by simp
  have "x = CHR ''-'' \<or> x = CHR ''+'' \<Longrightarrow> parse_digits xs 0 False = None"
    using parse_digits_bad_char [of c xs] in_strip xs assms(2) c_ by auto
  then show ?thesis using all xs by (auto simp: int_of_string_def)
qed

lemma create_temporary_dir_producer:
  "create_temporary_dir event_id st = Inr (tmp_dir, st1) \<Longrightarrow>
     proc_producer st1 = proc_producer st \<and> proc_target_topic st1 = proc_target_topic st"
  by (auto simp: create_temporary_dir_def Let_def split: if_splits)

text \<open>
  Claim C10. Take an invocation that reaches the shapefile: the service is ready, the
  command is accepted, the event's directory is created, the archive downloads, and
  the shapefile opens with the iteration \<open>srs\<close> over its records. Then the handler
  returns, and the messages it handed to the producer are the features of the
  records, in order, up to the first record that raises: either every record has its
  feature and the answer is the completion text with their number, or the loop
  stopped at the first record whose reading or feature raises, and the answer is the
  response of that exception. The \<^verbatim>\<open>_id\<close> of each feature is the source id, a colon, and
  the decimal form of the integer that \<^verbatim>\<open>int\<close> makes of the record's natural key; in
  particular a key written as decimal digits with any number of leading zeros, and
  a key that is a natural number itself, get the id of the number they denote, so
  \<^verbatim>\<open>"0123"\<close>, \<^verbatim>\<open>"123"\<close> and \<^verbatim>\<open>123\<close> get the same id. If the
  natural key of record \<open>k\<close> is not convertible (as is every string holding a
  character that is no digit, space, sign or underscore), no feature is handed over
  for record \<open>k\<close> or any later one, and the answer is the response of an exception.
\<close>

theorem processor_feature_id_from_integer_key:
  assumes "proc_done_loading st"
    and "parse_body_processor lib body = Inr b"
    and "create_temporary_dir event_id st = Inr (tmp_dir, st1)"
    and "b_archive_url b = PStr url"
    and "urlopen_ok env url"
    and "open_shapefile env b tmp_dir (archive_name_of (b_archive_format b) url)
           (path_join tmp_dir (archive_name_of (b_archive_format b) url))
         = Inr (crs_code, fields_name, srs)"
  shows "\<exists>feats answer st'.
           handler_processor lib env st event_id body = (Inr answer, st')
         \<and> handed (proc_producer st')
             = handed (proc_producer st) @ map (Pair (proc_target_topic st)) feats
         \<and> length feats \<le> length srs
         \<and> (\<forall>k < length feats.
               bind_exn (srs ! k) (shape_record_feature lib env b crs_code fields_name)
                 = Inr (feats ! k))
         \<and> (length feats = length srs
               \<and> answer = PlainText (''Processing Completed ('' @ str_nat (length srs)
                                       @ '' geometries)'')
             \<or> length feats < length srs
               \<and> (\<exists>e. bind_exn (srs ! length feats)
                          (shape_record_feature lib env b crs_code fields_name) = Inl e
                      \<and> answer = as_response e))
         \<and> (\<forall>k < length feats. \<exists>sr key n.
               srs ! k = Inr sr
             \<and> record_key fields_name (b_parcel_id_field b) sr = Inr (Some key)
             \<and> py_int lib key = Inr n
             \<and> py_getitem (feats ! k) ''_id'' = Inr (PStr (b_source_id b @ '':'' @ str_int n)))
         \<and> (\<forall>k < length feats. \<forall>sr z m.
               srs ! k = Inr sr
             \<and> record_key fields_name (b_parcel_id_field b) sr
                 = Inr (Some (PStr (replicate z CHR ''0'' @ str_nat m)))
               \<longrightarrow> py_getitem (feats ! k) ''_id''
                     = Inr (PStr (b_source_id b @ '':'' @ str_nat m)))
         \<and> (\<forall>k < length feats. \<forall>sr m.
               srs ! k = Inr sr
             \<and> record_key fields_name (b_parcel_id_field b) sr = Inr (Some (PInt (int m)))
               \<longrightarrow> py_getitem (feats ! k) ''_id''
                     = Inr (PStr (b_source_id b @ '':'' @ str_nat m)))
         \<and> (\<forall>k < length srs. \<forall>sr key e.
               srs ! k = Inr sr
             \<and> record_key fields_name (b_parcel_id_field b) sr = Inr (Some key)
             \<and> py_int lib key = Inl e
               \<longrightarrow> length feats \<le> k \<and> (\<exists>e'. answer = as_response e'))
         \<and> (\<forall>k < length srs. \<forall>sr s c.
               srs ! k = Inr sr
             \<and> record_key fields_name (b_parcel_id_field b) sr = Inr (Some (PStr s))
             \<and> c \<in> set s \<and> digit_of c = None \<and> \<not> is_space c \<and> c \<notin> set ''+-_''
               \<longrightarrow> length feats \<le> k \<and> (\<exists>e'. answer = as_response e'))"
proof -
  let ?F = "shape_record_feature lib env b crs_code fields_name"
  let ?K = "record_key fields_name (b_parcel_id_field b)"
  obtain r p' where pr:
    "process_records lib env b crs_code (proc_target_topic st1) fields_name srs 0
       (proc_producer st1) = (r, p')"
    by (cases "process_records lib env b crs_code (proc_target_topic st1) fields_name srs 0
       (proc_producer st1)") auto
  from process_records_emits [OF pr] obtain feats where f:
    "handed p' = handed (proc_producer st1) @ map (Pair (proc_target_topic st1)) feats"
    "length feats \<le> length srs"
    "\<forall>k < length feats. bind_exn (srs ! k) ?F = Inr (feats ! k)"
    "r = Inr (0 + length srs) \<and> length feats = length srs
       \<or> (\<exists>e. r = Inl e \<and> length feats < length srs
            \<and> bind_exn (srs ! length feats) ?F = Inl e)"
    by blast
  note same = create_temporary_dir_producer [OF assms(3)]
  define dl where "dl = st1\<lparr>proc_downloads := proc_downloads st1 @ [url]\<rparr>"
  define answer where "answer = (case r of Inl error \<Rightarrow> as_response error
       | Inr count \<Rightarrow> PlainText (''Processing Completed ('' @ str_nat count @ '' geometries)''))"
  define st' where "st' = rmtree tmp_dir
       (dl\<lparr>proc_producer := (case r of Inl e \<Rightarrow> p' | Inr c \<Rightarrow> flush p')\<rparr>)"
  have pa: "process_archive lib env b tmp_dir st1
      = (r, dl\<lparr>proc_producer := (case r of Inl e \<Rightarrow> p' | Inr c \<Rightarrow> flush p')\<rparr>)"
    using assms(4,5,6) pr
    by (cases r) (simp_all add: process_archive_def download_file_def Let_def dl_def)
  have h: "handler_processor lib env st event_id body = (Inr answer, st')"
    using assms(1,2,3) pa
    by (simp add: handler_processor_def try_processor_def finally_processor_def
        answer_def st'_def)
  have hp: "handed (proc_producer st')
      = handed (proc_producer st) @ map (Pair (proc_target_topic st)) feats"
    using f(1) same by (cases r) (simp_all add: st'_def rmtree_def handed_flush)
  have ends: "length feats = length srs
               \<and> answer = PlainText (''Processing Completed ('' @ str_nat (length srs)
                                       @ '' geometries)'')
             \<or> length feats < length srs
               \<and> (\<exists>e. bind_exn (srs ! length feats) ?F = Inl e \<and> answer = as_response e)"
    using f(4) by (auto simp: answer_def)
  have item: "\<exists>sr. srs ! k = Inr sr \<and> ?F sr = Inr (feats ! k)" if "k < length feats" for k
    using f(3) that by (auto simp: bind_exn_Inr_iff)
  have ids: "\<forall>k < length feats. \<exists>sr key n.
               srs ! k = Inr sr \<and> ?K sr = Inr (Some key) \<and> py_int lib key = Inr n
             \<and> py_getitem (feats ! k) ''_id'' = Inr (PStr (b_source_id b @ '':'' @ str_int n))"
    using item shape_record_feature_id by blast
  have zeros: "\<forall>k < length feats. \<forall>sr z m.
               srs ! k = Inr sr
             \<and> ?K sr = Inr (Some (PStr (replicate z CHR ''0'' @ str_nat m)))
               \<longrightarrow> py_getitem (feats ! k) ''_id''
                     = Inr (PStr (b_source_id b @ '':'' @ str_nat m))"
  proof (intro allI impI)
    fix k sr z m
    assume k: "k < length feats"
      and a: "srs ! k = Inr sr
             \<and> ?K sr = Inr (Some (PStr (replicate z CHR ''0'' @ str_nat m)))"
    from ids k obtain sr' key n where i:
      "srs ! k = Inr sr'" "?K sr' = Inr (Some key)" "py_int lib key = Inr n"
      "py_getitem (feats ! k) ''_id'' = Inr (PStr (b_source_id b @ '':'' @ str_int n))"
      by blast
    have "key = PStr (replicate z CHR ''0'' @ str_nat m)" using a i(1,2) by simp
    then have "n = int m" using i(3) by (simp add: int_of_string_decimal)
    then show "py_getitem (feats ! k) ''_id''
                = Inr (PStr (b_source_id b @ '':'' @ str_nat m))"
      using i(4) by (simp add: str_int_def)
  qed
  have ints: "\<forall>k < length feats. \<forall>sr m.
               srs ! k = Inr sr \<and> ?K sr = Inr (Some (PInt (int m)))
               \<longrightarrow> py_getitem (feats ! k) ''_id''
                     = Inr (PStr (b_source_id b @ '':'' @ str_nat m))"
  proof (intro allI impI)
    fix k sr m
    assume k: "k < length feats"
      and a: "srs ! k = Inr sr \<and> ?K sr = Inr (Some (PInt (int m)))"
    from ids k obtain sr' key n where i:
      "srs ! k = Inr sr'" "?K sr' = Inr (Some key)" "py_int lib key = Inr n"
      "py_getitem (feats ! k) ''_id'' = Inr (PStr (b_source_id b @ '':'' @ str_int n))"
      by blast
    have "key = PInt (int m)" using a i(1,2) by simp
    then have "n = int m" using i(3) by simp
    then show "py_getitem (feats ! k) ''_id''
                = Inr (PStr (b_source_id b @ '':'' @ str_nat m))"
      using i(4) by (simp add: str_int_def)
  qed
  have stop: "length feats \<le> k \<and> (\<exists>e'. answer = as_response e')"
    if k: "k < length srs" and sr: "srs ! k = Inr sr" and key: "?K sr = Inr (Some key)"
      and bad: "py_int lib key = Inl e" for k sr key e
  proof -
    have fail: "bind_exn (srs ! k) ?F = Inl e"
      using shape_record_feature_no_key [OF key bad] sr by simp
    have le: "length feats \<le> k"
    proof (rule ccontr)
      assume "\<not> length feats \<le> k"
      then have "bind_exn (srs ! k) ?F = Inr (feats ! k)" using f(3) by simp
      with fail show False by simp
    qed
    then have "length feats < length srs" using k by simp
    then have "\<exists>e'. answer = as_response e'" using ends by auto
    with le show ?thesis by blast
  qed
  have stops: "\<forall>k < length srs. \<forall>sr key e.
               srs ! k = Inr sr \<and> ?K sr = Inr (Some key) \<and> py_int lib key = Inl e
               \<longrightarrow> length feats \<le> k \<and> (\<exists>e'. answer = as_response e')"
    using stop by blast
  have letters: "\<forall>k < length srs. \<forall>sr s c.
               srs ! k = Inr sr \<and> ?K sr = Inr (Some (PStr s))
             \<and> c \<in> set s \<and> digit_of c = None \<and> \<not> is_space c \<and> c \<notin> set ''+-_''
               \<longrightarrow> length feats \<le> k \<and> (\<exists>e'. answer = as_response e')"
  proof (intro allI impI)
    fix k sr s c
    assume k: "k < length srs"
      and a: "srs ! k = Inr sr \<and> ?K sr = Inr (Some (PStr s))
             \<and> c \<in> set s \<and> digit_of c = None \<and> \<not> is_space c \<and> c \<notin> set ''+-_''"
    then have "int_of_string s = None" using int_of_string_bad_char by blast
    then have "py_int lib (PStr s) = Inl ValueError" by simp
    then show "length feats \<le> k \<and> (\<exists>e'. answer = as_response e')"
      using stop [OF k, of sr "PStr s" ValueError] a by blast
  qed
  from h hp f(2) f(3) ends ids zeros ints stops letters
  show ?thesis by blast
qed

lemma example_parse:
  "parse_body_processor example_lib (example_command ''7z'') = Inr example_download"
  by (simp add: parse_body_processor_def example_command_def lower_char_def
      normalized_parcel_properties_cfg_def accepted_source_id_def str_int_def str_nat.simps
      example_download_def)

lemma example_open:
  "open_shapefile example_processor_env example_download ''/tmp/nuclio-event-e1''
     (archive_name_of (b_archive_format example_download)
        ''http://host/RPG_2-0__SHP_LAMB93_R24-2016_2016-01-01.7z'')
     (path_join ''/tmp/nuclio-event-e1''
        (archive_name_of (b_archive_format example_download)
           ''http://host/RPG_2-0__SHP_LAMB93_R24-2016_2016-01-01.7z''))
   = Inr (2154, [''ID_PARCEL'', ''SURF_PARC''], example_records)"
  by (simp add: open_shapefile_def example_processor_env_def example_download_def
      region_crs_def rsplit_last_def is_digit_def digit_of_def int_of_string_def strip_def
      is_space_def region_code_epsg_crs_def Let_def)

lemma example_keys:
  "py_int example_lib (PStr ''0123'') = Inr 123"
  "py_int example_lib (PStr ''123'') = Inr 123"
  "py_int example_lib (PStr ''abc'') = Inl ValueError"
  by (simp_all add: int_of_string_def strip_def is_space_def digit_of_def)

lemma example_run:
  "fst (handler_processor example_lib example_processor_env ready_processor ''e1''
          (example_command ''7z''))
     = Inr (Response (Unexpected ValueError) 500)
   \<and> map (\<lambda>m. py_getitem (snd m) ''_id'')
        (handed (proc_producer (snd (handler_processor example_lib example_processor_env
           ready_processor ''e1'' (example_command ''7z'')))))
     = [Inr (PStr ''lpis:fr:R24:123''), Inr (PStr ''lpis:fr:R24:123'')]"
  by (simp add: handler_processor_def try_processor_def finally_processor_def
      parse_body_processor_def example_command_def lower_char_def
      normalized_parcel_properties_cfg_def accepted_source_id_def
      create_temporary_dir_def ready_processor_def process_archive_def download_file_def
      open_shapefile_def region_crs_def rsplit_last_def is_digit_def region_code_epsg_crs_def
      example_processor_env_def example_records_def example_point_def shape_record_feature_def
      natural_key_def dict_of_pairs_def int_of_string_def strip_def
      is_space_def digit_of_def str_int_def str_nat.simps handed_def produce_def flush_def
      rmtree_def codes_internal_server_error_def Let_def)

lemma example_read_error:
  "fst (handler_processor example_lib
          (example_processor_env\<lparr>shapefile_reader :=
             (\<lambda>f. Inr ([''ID_PARCEL'', ''SURF_PARC''], example_records_read_error))\<rparr>)
          ready_processor ''e1'' (example_command ''7z''))
     = Inr (Response (Unexpected (ExternalError ''shapefile'')) 500)
   \<and> map (\<lambda>m. py_getitem (snd m) ''_id'')
        (handed (proc_producer (snd (handler_processor example_lib
          (example_processor_env\<lparr>shapefile_reader :=
             (\<lambda>f. Inr ([''ID_PARCEL'', ''SURF_PARC''], example_records_read_error))\<rparr>)
           ready_processor ''e1'' (example_command ''7z'')))))
     = [Inr (PStr ''lpis:fr:R24:123'')]"
  by (simp add: handler_processor_def try_processor_def finally_processor_def
      parse_body_processor_def example_command_def lower_char_def
      normalized_parcel_properties_cfg_def accepted_source_id_def
      create_temporary_dir_def ready_processor_def process_archive_def download_file_def
      open_shapefile_def region_crs_def rsplit_last_def is_digit_def region_code_epsg_crs_def
      example_processor_env_def example_records_read_error_def example_point_def
      shape_record_feature_def
      natural_key_def dict_of_pairs_def int_of_string_def strip_def
      is_space_def digit_of_def str_int_def str_nat.simps handed_def produce_def flush_def
      rmtree_def codes_internal_server_error_def Let_def)

theorem processor_feature_id_from_integer_key_witness:
  "record_key [''ID_PARCEL'', ''SURF_PARC''] (PStr ''ID_PARCEL'')
     ([PStr ''0123'', PInt 2], example_point 1 2 :: exn + unit pyval)
     = Inr (Some (PStr (replicate 1 CHR ''0'' @ str_nat 123)))
   \<and> record_key [''ID_PARCEL'', ''SURF_PARC''] (PStr ''ID_PARCEL'')
     ([PStr ''123'', PInt 3], example_point 3 4 :: exn + unit pyval)
     = Inr (Some (PStr (replicate 0 CHR ''0'' @ str_nat 123)))
   \<and> record_key [''ID_PARCEL'', ''SURF_PARC''] (PStr ''ID_PARCEL'')
     ([PStr ''abc'', PInt 4], example_point 5 6 :: exn + unit pyval)
     = Inr (Some (PStr ''abc''))
   \<and> CHR ''a'' \<in> set ''abc'' \<and> digit_of CHR ''a'' = None \<and> \<not> is_space CHR ''a''
   \<and> CHR ''a'' \<notin> set ''+-_''
   \<and> py_int example_lib (PStr ''0123'') = Inr 123
   \<and> py_int example_lib (PStr ''123'') = Inr 123
   \<and> py_int example_lib (PStr ''abc'') = Inl ValueError
   \<and> fst (handler_processor example_lib example_processor_env ready_processor ''e1''
          (example_command ''7z''))
     = Inr (Response (Unexpected ValueError) 500)
   \<and> map (\<lambda>m. py_getitem (snd m) ''_id'')
        (handed (proc_producer (snd (handler_processor example_lib example_processor_env
           ready_processor ''e1'' (example_command ''7z'')))))
     = [Inr (PStr ''lpis:fr:R24:123''), Inr (PStr ''lpis:fr:R24:123'')]
   \<and> fst (handler_processor example_lib
          (example_processor_env\<lparr>shapefile_reader :=
             (\<lambda>f. Inr ([''ID_PARCEL'', ''SURF_PARC''], example_records_read_error))\<rparr>)
          ready_processor ''e1'' (example_command ''7z''))
     = Inr (Response (Unexpected (ExternalError ''shapefile'')) 500)
   \<and> map (\<lambda>m. py_getitem (snd m) ''_id'')
        (handed (proc_producer (snd (handler_processor example_lib
          (example_processor_env\<lparr>shapefile_reader :=
             (\<lambda>f. Inr ([''ID_PARCEL'', ''SURF_PARC''], example_records_read_error))\<rparr>)
           ready_processor ''e1'' (example_command ''7z'')))))
     = [Inr (PStr ''lpis:fr:R24:123'')]"
proof -
  have ready: "proc_done_loading (ready_processor :: unit processor_state)"
    by (simp add: ready_processor_def)
  have dir: "create_temporary_dir ''e1'' (ready_processor :: unit processor_state)
      = Inr (''/tmp/nuclio-event-e1'', ready_processor\<lparr>proc_dirs := [''/tmp/nuclio-event-e1'']\<rparr>)"
    by (simp add: create_temporary_dir_def ready_processor_def Let_def)
  have url: "b_archive_url (example_download :: unit download)
      = PStr ''http://host/RPG_2-0__SHP_LAMB93_R24-2016_2016-01-01.7z''"
    by (simp add: example_download_def)
  have ok: "urlopen_ok example_processor_env
      ''http://host/RPG_2-0__SHP_LAMB93_R24-2016_2016-01-01.7z''"
    by (simp add: example_processor_env_def)
  have keys: "record_key [''ID_PARCEL'', ''SURF_PARC''] (PStr ''ID_PARCEL'')
       ([PStr ''0123'', PInt 2], example_point 1 2 :: exn + unit pyval)
       = Inr (Some (PStr (replicate 1 CHR ''0'' @ str_nat 123)))"
    "record_key [''ID_PARCEL'', ''SURF_PARC''] (PStr ''ID_PARCEL'')
       ([PStr ''123'', PInt 3], example_point 3 4 :: exn + unit pyval)
       = Inr (Some (PStr (replicate 0 CHR ''0'' @ str_nat 123)))"
    "record_key [''ID_PARCEL'', ''SURF_PARC''] (PStr ''ID_PARCEL'')
       ([PStr ''abc'', PInt 4], example_point 5 6 :: exn + unit pyval)
       = Inr (Some (PStr ''abc''))"
    by (simp_all add: record_key_def dict_of_pairs_def str_nat.simps)
  have letter: "CHR ''a'' \<in> set ''abc''" "digit_of CHR ''a'' = None" "\<not> is_space CHR ''a''"
    "CHR ''a'' \<notin> set ''+-_''"
    by (simp_all add: digit_of_def is_space_def)
  note t = processor_feature_id_from_integer_key [OF ready example_parse dir url ok example_open]
  show ?thesis
    using t keys letter example_keys example_run example_read_error by simp
qed

end
